theory Spec2Isabelle
  imports Complex_Main
begin

section \<open>JavaScript string primitives used by the memory system\<close>

text \<open>
  Strings are lists of characters; a character stands for a code unit below 256.
  \<open>isWhiteSpace\<close> is the set that \<open>String.prototype.trim\<close> and the regular
  expression class \<open>\s\<close> remove or match (WhiteSpace and LineTerminator of ECMAScript),
  restricted to that range: TAB, LF, VT, FF, CR, SPACE and NBSP.
\<close>

definition isWhiteSpace :: "char \<Rightarrow> bool" where
  "isWhiteSpace c =
     (c = CHR 0x09 \<or> c = CHR 0x0A \<or> c = CHR 0x0B \<or> c = CHR 0x0C \<or> c = CHR 0x0D
      \<or> c = CHR 0x20 \<or> c = CHR 0xA0)"

definition trimStart :: "string \<Rightarrow> string" where
  "trimStart s = dropWhile isWhiteSpace s"

definition trimEnd :: "string \<Rightarrow> string" where
  "trimEnd s = rev (dropWhile isWhiteSpace (rev s))"

definition trim :: "string \<Rightarrow> string" where
  "trim s = trimStart (trimEnd s)"

text \<open>\<open>s.split('\n')\<close>: never empty; \<open>''.split('\n')\<close> is \<open>['']\<close>.\<close>

fun split_nl :: "string \<Rightarrow> string list" where
  "split_nl [] = [[]]"
| "split_nl (c # cs) =
     (if c = CHR 0x0A then [] # split_nl cs
      else (case split_nl cs of l # ls \<Rightarrow> (c # l) # ls | [] \<Rightarrow> [[c]]))"

text \<open>\<open>lines.join('\n')\<close>.\<close>

fun join_nl :: "string list \<Rightarrow> string" where
  "join_nl [] = []"
| "join_nl [l] = l"
| "join_nl (l # ls) = l @ CHR 0x0A # join_nl ls"

section \<open>JavaScript values\<close>

text \<open>
  The transcript keeps in \<open>entries\<close> whatever \<open>JSON.parse\<close> returned, cast to
  \<open>TranscriptEntry\<close> without a check, so an entry is any JSON value. \<open>json\<close> are these
  values. An object is the list of its properties in insertion order, each name once.
  A number is a rational: the exact value of its literal, and sums are exact. JavaScript
  has doubles; the two agree on the integers up to \<open>2^53\<close> and on their sums within
  that range, which is where the token counts live (\<open>countTokens\<close> returns the length
  of an array). The rounding of other literals and sums, the infinities and the sign of
  zero are not modelled.
\<close>

datatype json =
    JNull
  | JBool bool
  | JNumber rat
  | JString string
  | JArray "json list"
  | JObject "(string \<times> json) list"

datatype error = TypeError

text \<open>
  \<open>v.name\<close> for the property names that the transcript reads (\<open>id\<close>, \<open>type\<close>,
  \<open>tokenCount\<close>), which no string, number, boolean or array has: \<open>Inl TypeError\<close> on
  \<open>null\<close>, \<open>Inr None\<close> for \<open>undefined\<close>.
\<close>

definition getProperty :: "json \<Rightarrow> string \<Rightarrow> error + json option" where
  "getProperty v name =
     (case v of
        JNull \<Rightarrow> Inl TypeError
      | JObject properties \<Rightarrow> Inr (map_of properties name)
      | _ \<Rightarrow> Inr None)"

text \<open>ToBoolean.\<close>

definition truthy :: "json \<Rightarrow> bool" where
  "truthy v =
     (case v of
        JNull \<Rightarrow> False
      | JBool b \<Rightarrow> b
      | JNumber n \<Rightarrow> n \<noteq> 0
      | JString s \<Rightarrow> s \<noteq> []
      | _ \<Rightarrow> True)"

text \<open>
  Number::toString in plain decimal notation, which is what JavaScript prints for a
  number of at most 15 significant digits whose magnitude is \<open>0\<close> or from \<open>10^-6\<close> up to
  \<open>10^21\<close>; JavaScript prints the others with an exponent or with the digits of the
  rounded double. At most 20 digits of a fraction are printed.
\<close>

function showNat :: "nat \<Rightarrow> string" where
  "showNat n = (if n < 10 then [char_of (48 + n)] else showNat (n div 10) @ [char_of (48 + n mod 10)])"
  by pat_completeness auto
termination
  by (relation "measure id") auto

fun fractionDigits :: "nat \<Rightarrow> rat \<Rightarrow> string" where
  "fractionDigits 0 r = []"
| "fractionDigits (Suc n) r =
     (if r = 0 then []
      else char_of (48 + nat \<lfloor>r * 10\<rfloor>) # fractionDigits n (r * 10 - of_int \<lfloor>r * 10\<rfloor>))"

definition numberToString :: "rat \<Rightarrow> string" where
  "numberToString q =
     (if q < 0 then ''-'' else [])
     @ showNat (nat \<lfloor>\<bar>q\<bar>\<rfloor>)
     @ (if \<bar>q\<bar> = of_int \<lfloor>\<bar>q\<bar>\<rfloor> then []
        else CHR ''.'' # fractionDigits 20 (\<bar>q\<bar> - of_int \<lfloor>\<bar>q\<bar>\<rfloor>))"

fun commaJoin :: "string list \<Rightarrow> string" where
  "commaJoin [] = []"
| "commaJoin [x] = x"
| "commaJoin (x # xs) = x @ CHR '','' # commaJoin xs"

text \<open>
  ToString. An array is its elements joined by commas, \<open>null\<close> elements empty. An object
  is \<open>[object Object]\<close>, unless it has a property of its own named \<open>toString\<close>: that
  property is no function, no conversion is left and the conversion throws.
\<close>

fun toStringJS :: "json \<Rightarrow> error + string"
and toStringElements :: "json list \<Rightarrow> error + string list" where
  "toStringJS JNull = Inr ''null''"
| "toStringJS (JBool b) = Inr (if b then ''true'' else ''false'')"
| "toStringJS (JNumber n) = Inr (numberToString n)"
| "toStringJS (JString s) = Inr s"
| "toStringJS (JArray vs) =
     (case toStringElements vs of Inl e \<Rightarrow> Inl e | Inr ss \<Rightarrow> Inr (commaJoin ss))"
| "toStringJS (JObject properties) =
     (if map_of properties ''toString'' \<noteq> None then Inl TypeError else Inr ''[object Object]'')"
| "toStringElements [] = Inr []"
| "toStringElements (v # vs) =
     (case (if v = JNull then Inr [] else toStringJS v) of
        Inl e \<Rightarrow> Inl e
      | Inr s \<Rightarrow> (case toStringElements vs of Inl e \<Rightarrow> Inl e | Inr ss \<Rightarrow> Inr (s # ss)))"

text \<open>ToPrimitive: an array or an object becomes its string.\<close>

definition toPrimitive :: "json \<Rightarrow> error + json" where
  "toPrimitive v =
     (case v of
        JArray vs \<Rightarrow> (case toStringJS v of Inl e \<Rightarrow> Inl e | Inr s \<Rightarrow> Inr (JString s))
      | JObject properties \<Rightarrow> (case toStringJS v of Inl e \<Rightarrow> Inl e | Inr s \<Rightarrow> Inr (JString s))
      | _ \<Rightarrow> Inr v)"

text \<open>
  The field \<open>totalTokens\<close> is declared a number; at run time it is a number or, once a
  string was added to it, a string.
\<close>

datatype tally = Number rat | Text string

text \<open>\<open>total + p\<close> for a primitive \<open>p\<close>: concatenation when either side is a string.\<close>

definition addPrimitive :: "tally \<Rightarrow> json \<Rightarrow> tally" where
  "addPrimitive acc p =
     (case acc of
        Text s \<Rightarrow>
          Text (s @ (case p of JNull \<Rightarrow> ''null'' | JBool b \<Rightarrow> (if b then ''true'' else ''false'')
                     | JNumber n \<Rightarrow> numberToString n | JString x \<Rightarrow> x | _ \<Rightarrow> []))
      | Number m \<Rightarrow>
          (case p of
             JString x \<Rightarrow> Text (numberToString m @ x)
           | JNumber n \<Rightarrow> Number (m + n)
           | JBool b \<Rightarrow> Number (m + (if b then 1 else 0))
           | _ \<Rightarrow> Number m))"

text \<open>\<open>total + v\<close>.\<close>

definition js_add :: "tally \<Rightarrow> json \<Rightarrow> error + tally" where
  "js_add acc v = (case toPrimitive v of Inl e \<Rightarrow> Inl e | Inr p \<Rightarrow> Inr (addPrimitive acc p))"

section \<open>Transcript entries (interface TranscriptEntry, src/src/types.ts)\<close>

datatype EntryType = message | tool_call | tool_result | compaction

datatype Role = user | assistant

text \<open>
  \<open>Omit<TranscriptEntry, 'id' | 'timestamp' | 'tokenCount'>\<close>, the argument type of
  \<open>append_entry\<close>, is the base record; \<open>TranscriptEntry\<close> extends it with the three
  fields that it stamps. (\<open>id\<close> is written \<open>id'\<close> and \<open>append\<close> is written
  \<open>append_entry\<close>, both names being taken.) These records are what the methods of the
  class build. \<open>parentId\<close> is a value: the methods fill it from \<open>getLastEntryId()\<close>, which
  returns the \<open>id\<close> property of a stored entry as it is (\<open>None\<close> is \<open>undefined\<close>,
  \<open>Some JNull\<close> is \<open>null\<close>).
\<close>

record EntryInput =
  parentId :: "json option"
  type :: EntryType
  role :: "Role option"
  content :: string
  metadata :: "(string \<times> json) list option"

record TranscriptEntry = EntryInput +
  id' :: string
  timestamp :: string
  tokenCount :: nat

definition entryTypeName :: "EntryType \<Rightarrow> string" where
  "entryTypeName ty =
     (case ty of message \<Rightarrow> ''message'' | tool_call \<Rightarrow> ''tool_call''
      | tool_result \<Rightarrow> ''tool_result'' | compaction \<Rightarrow> ''compaction'')"

definition roleName :: "Role \<Rightarrow> string" where
  "roleName r = (case r of user \<Rightarrow> ''user'' | assistant \<Rightarrow> ''assistant'')"

text \<open>
  The object \<open>{ ...entry, id, timestamp, tokenCount }\<close> that \<open>append_entry\<close> builds, pushes
  and writes. The properties stand in the order in which every caller writes them:
  \<open>type\<close>, \<open>role\<close>, \<open>content\<close>, \<open>parentId\<close>, \<open>metadata\<close>, then \<open>id\<close>, \<open>timestamp\<close>,
  \<open>tokenCount\<close>; a property that a caller does not give, or gives as \<open>undefined\<close>, is left
  out.
\<close>

definition toObject :: "TranscriptEntry \<Rightarrow> json" where
  "toObject e =
     JObject
       ([(''type'', JString (entryTypeName (type e)))]
        @ (case role e of None \<Rightarrow> [] | Some r \<Rightarrow> [(''role'', JString (roleName r))])
        @ [(''content'', JString (content e))]
        @ (case parentId e of None \<Rightarrow> [] | Some p \<Rightarrow> [(''parentId'', p)])
        @ (case metadata e of None \<Rightarrow> [] | Some m \<Rightarrow> [(''metadata'', JObject m)])
        @ [(''id'', JString (id' e)), (''timestamp'', JString (timestamp e)),
           (''tokenCount'', JNumber (of_nat (tokenCount e)))])"

section \<open>Transcript (class Transcript, sessions/Transcript.ts in src/src/types.ts)\<close>

text \<open>
  The object state is the record \<open>Transcript\<close>; the file at \<open>filePath\<close> is a value of
  type \<open>string option\<close>, \<open>None\<close> when the file does not exist. The collaborators are
  parameters: \<open>countTokens\<close> (utils/tokens.ts wraps an external encoder), and the
  platform's \<open>JSON.parse\<close> and \<open>JSON.stringify\<close>, \<open>parse line = None\<close> standing for the
  SyntaxError that \<open>JSON.parse\<close> throws. \<open>randomUUID()\<close> and
  \<open>new Date().toISOString()\<close> are passed to \<open>append_entry\<close> as arguments. What
  \<open>console.error\<close> receives is returned as a list of the lines reported.
\<close>

record Transcript =
  entries :: "json list"
  totalTokens :: tally
  loaded :: bool

definition new_Transcript :: Transcript where
  "new_Transcript = \<lparr>entries = [], totalTokens = Number 0, loaded = False\<rparr>"

text \<open>\<open>entry.tokenCount || 0\<close>\<close>

definition tokenCount_or_0 :: "json \<Rightarrow> error + json" where
  "tokenCount_or_0 entry =
     (case getProperty entry ''tokenCount'' of
        Inl e \<Rightarrow> Inl e
      | Inr None \<Rightarrow> Inr (JNumber 0)
      | Inr (Some x) \<Rightarrow> Inr (if truthy x then x else JNumber 0))"

text \<open>
  The body of the \<open>for (const line of lines)\<close> loop of \<open>load\<close>, on the state and the
  lines reported so far. The parsed value is pushed first; reading \<open>tokenCount\<close> and
  adding it come after and may throw inside the same \<open>try\<close>, in which case the line is
  reported and the value stays pushed.
\<close>

definition load_line ::
  "(string \<Rightarrow> json option) \<Rightarrow> string \<Rightarrow> Transcript \<times> string list \<Rightarrow> Transcript \<times> string list" where
  "load_line parse line st =
     (case st of
        (t, reported) \<Rightarrow>
          if trim line \<noteq> [] then
            (case parse line of
               None \<Rightarrow> (t, reported @ [line])
             | Some entry \<Rightarrow>
                 (let t1 = t\<lparr>entries := entries t @ [entry]\<rparr>
                  in case tokenCount_or_0 entry of
                       Inl e \<Rightarrow> (t1, reported @ [line])
                     | Inr x \<Rightarrow>
                         (case js_add (totalTokens t1) x of
                            Inl e \<Rightarrow> (t1, reported @ [line])
                          | Inr acc \<Rightarrow> (t1\<lparr>totalTokens := acc\<rparr>, reported))))
          else (t, reported))"

fun load_lines ::
  "(string \<Rightarrow> json option) \<Rightarrow> string list \<Rightarrow> Transcript \<times> string list \<Rightarrow> Transcript \<times> string list" where
  "load_lines parse [] st = st"
| "load_lines parse (line # lines) st = load_lines parse lines (load_line parse line st)"

text \<open>\<open>load\<close> with the lines it reported, then \<open>load\<close> as the state alone.\<close>

definition load_reporting ::
  "(string \<Rightarrow> json option) \<Rightarrow> string option \<Rightarrow> Transcript \<Rightarrow> Transcript \<times> string list" where
  "load_reporting parse file t =
     (if loaded t then (t, [])
      else
        (case file of
           None \<Rightarrow> (t\<lparr>entries := [], totalTokens := Number 0, loaded := True\<rparr>, [])
         | Some contents \<Rightarrow>
             (let t0 = t\<lparr>entries := [], totalTokens := Number 0\<rparr>;
                  st1 = (if trim contents \<noteq> []
                         then load_lines parse (split_nl (trim contents)) (t0, [])
                         else (t0, []))
              in ((fst st1)\<lparr>loaded := True\<rparr>, snd st1))))"

definition load :: "(string \<Rightarrow> json option) \<Rightarrow> string option \<Rightarrow> Transcript \<Rightarrow> Transcript" where
  "load parse file t = fst (load_reporting parse file t)"

text \<open>\<open>init\<close>: the directory is not modelled; an absent file is created empty.\<close>

definition init :: "(string \<Rightarrow> json option) \<Rightarrow> string option \<Rightarrow> Transcript \<Rightarrow> Transcript \<times> string option" where
  "init parse file t =
     (let file' = (case file of None \<Rightarrow> Some [] | Some c \<Rightarrow> Some c)
      in (load parse file' t, file'))"

text \<open>
  \<open>append_entry\<close> returns the full entry, the new object state and the new file. Opening with
  flag \<open>'a'\<close> creates a missing file and writes at its end. The token count is a number,
  so adding it to the total does not throw.
\<close>

definition append_entry ::
  "(string \<Rightarrow> nat) \<Rightarrow> (string \<Rightarrow> json option) \<Rightarrow> (json \<Rightarrow> string) \<Rightarrow>
   string \<Rightarrow> string \<Rightarrow> EntryInput \<Rightarrow> string option \<Rightarrow> Transcript \<Rightarrow>
   TranscriptEntry \<times> Transcript \<times> string option" where
  "append_entry countTokens parse stringify uuid now entry file t =
     (let t1 = load parse file t;
          n = countTokens (content entry);
          fullEntry = \<lparr>parentId = parentId entry, type = type entry, role = role entry,
                       content = content entry, metadata = metadata entry,
                       id' = uuid, timestamp = now, tokenCount = n\<rparr>;
          file' = Some ((case file of None \<Rightarrow> [] | Some c \<Rightarrow> c)
                        @ stringify (toObject fullEntry) @ [CHR 0x0A]);
          t2 = t1\<lparr>entries := entries t1 @ [toObject fullEntry],
                  totalTokens := addPrimitive (totalTokens t1) (JNumber (of_nat n))\<rparr>
      in (fullEntry, t2, file'))"

text \<open>\<open>getLastEntryId\<close>: \<open>null\<close> for no entry, else the \<open>id\<close> property of the last one.\<close>

definition getLastEntryId :: "Transcript \<Rightarrow> error + json option" where
  "getLastEntryId t =
     (if length (entries t) = 0 then Inr (Some JNull)
      else getProperty (entries t ! (length (entries t) - 1)) ''id'')"

text \<open>
  \<open>parentId || this.getLastEntryId()\<close> for an argument that is a string or \<open>null\<close>:
  \<open>null\<close> and the empty string are falsy.
\<close>

definition parent_or_last :: "string option \<Rightarrow> Transcript \<Rightarrow> error + json option" where
  "parent_or_last p t =
     (case p of None \<Rightarrow> getLastEntryId t
      | Some x \<Rightarrow> if x = [] then getLastEntryId t else Inr (Some (JString x)))"

definition addUserMessage ::
  "(string \<Rightarrow> nat) \<Rightarrow> (string \<Rightarrow> json option) \<Rightarrow> (json \<Rightarrow> string) \<Rightarrow>
   string \<Rightarrow> string \<Rightarrow> string \<Rightarrow> string option \<Rightarrow> string option \<Rightarrow> Transcript \<Rightarrow>
   error + TranscriptEntry \<times> Transcript \<times> string option" where
  "addUserMessage countTokens parse stringify uuid now text p file t =
     (case parent_or_last p t of
        Inl e \<Rightarrow> Inl e
      | Inr parent \<Rightarrow>
          Inr (append_entry countTokens parse stringify uuid now
                 \<lparr>parentId = parent, type = message, role = Some user,
                  content = text, metadata = None\<rparr> file t))"

definition addAssistantMessage ::
  "(string \<Rightarrow> nat) \<Rightarrow> (string \<Rightarrow> json option) \<Rightarrow> (json \<Rightarrow> string) \<Rightarrow>
   string \<Rightarrow> string \<Rightarrow> string \<Rightarrow> string option \<Rightarrow> string option \<Rightarrow> Transcript \<Rightarrow>
   error + TranscriptEntry \<times> Transcript \<times> string option" where
  "addAssistantMessage countTokens parse stringify uuid now text p file t =
     (case parent_or_last p t of
        Inl e \<Rightarrow> Inl e
      | Inr parent \<Rightarrow>
          Inr (append_entry countTokens parse stringify uuid now
                 \<lparr>parentId = parent, type = message, role = Some assistant,
                  content = text, metadata = None\<rparr> file t))"

definition addCompaction ::
  "(string \<Rightarrow> nat) \<Rightarrow> (string \<Rightarrow> json option) \<Rightarrow> (json \<Rightarrow> string) \<Rightarrow>
   string \<Rightarrow> string \<Rightarrow> string \<Rightarrow> string list \<Rightarrow> string option \<Rightarrow> Transcript \<Rightarrow>
   TranscriptEntry \<times> Transcript \<times> string option" where
  "addCompaction countTokens parse stringify uuid now summary removedEntryIds file t =
     append_entry countTokens parse stringify uuid now
       \<lparr>parentId = Some JNull, type = compaction, role = None, content = summary,
        metadata = Some [(''removedEntryIds'', JArray (map JString removedEntryIds)),
                         (''removedCount'', JNumber (of_nat (length removedEntryIds)))]\<rparr> file t"

definition getEntries :: "Transcript \<Rightarrow> json list" where
  "getEntries t = entries t"

text \<open>
  The backwards search of \<open>getRecentEntries\<close>: \<open>lastCompaction es n\<close> runs the loop
  \<open>for (i = n - 1; i >= 0; i--)\<close> and returns the index at the \<open>break\<close>, or \<open>-1\<close>;
  reading \<open>type\<close> of a \<open>null\<close> entry throws.
\<close>

fun lastCompaction :: "json list \<Rightarrow> nat \<Rightarrow> error + int" where
  "lastCompaction es 0 = Inr (- 1)"
| "lastCompaction es (Suc i) =
     (case getProperty (es ! i) ''type'' of
        Inl e \<Rightarrow> Inl e
      | Inr ty \<Rightarrow> if ty = Some (JString ''compaction'') then Inr (int i) else lastCompaction es i)"

definition getRecentEntries :: "Transcript \<Rightarrow> error + json list" where
  "getRecentEntries t =
     (case lastCompaction (entries t) (length (entries t)) of
        Inl e \<Rightarrow> Inl e
      | Inr lastCompactionIndex \<Rightarrow>
          if lastCompactionIndex = - 1 then Inr (entries t)
          else Inr (drop (nat lastCompactionIndex) (entries t)))"

definition getTotalTokens :: "Transcript \<Rightarrow> tally" where
  "getTotalTokens t = totalTokens t"

text \<open>\<open>recent.reduce((sum, e) => sum + (e.tokenCount || 0), 0)\<close>\<close>

fun reduce_tokens :: "tally \<Rightarrow> json list \<Rightarrow> error + tally" where
  "reduce_tokens acc [] = Inr acc"
| "reduce_tokens acc (e # es) =
     (case tokenCount_or_0 e of
        Inl err \<Rightarrow> Inl err
      | Inr x \<Rightarrow> (case js_add acc x of Inl err \<Rightarrow> Inl err | Inr acc' \<Rightarrow> reduce_tokens acc' es))"

definition getRecentTokens :: "Transcript \<Rightarrow> error + tally" where
  "getRecentTokens t =
     (case getRecentEntries t of Inl e \<Rightarrow> Inl e | Inr recent \<Rightarrow> reduce_tokens (Number 0) recent)"

definition getEntryCount :: "Transcript \<Rightarrow> nat" where
  "getEntryCount t = length (entries t)"

definition reload :: "(string \<Rightarrow> json option) \<Rightarrow> string option \<Rightarrow> Transcript \<Rightarrow> Transcript" where
  "reload parse file t = load parse file (t\<lparr>loaded := False, entries := [], totalTokens := Number 0\<rparr>)"

text \<open>A run of appends, each with the identifier and the time stamp it is given.\<close>

fun append_seq ::
  "(string \<Rightarrow> nat) \<Rightarrow> (string \<Rightarrow> json option) \<Rightarrow> (json \<Rightarrow> string) \<Rightarrow>
   (string \<times> string \<times> EntryInput) list \<Rightarrow> string option \<Rightarrow> Transcript \<Rightarrow> Transcript \<times> string option" where
  "append_seq countTokens parse stringify [] file t = (t, file)"
| "append_seq countTokens parse stringify ((uuid, now, entry) # rest) file t =
     (case append_entry countTokens parse stringify uuid now entry file t of
        (e, t', file') \<Rightarrow> append_seq countTokens parse stringify rest file' t')"

subsection \<open>Array identity\<close>

text \<open>
  \<open>getEntries\<close> and \<open>getRecentEntries\<close> return arrays, which a caller can mutate. To
  speak about that, arrays live in a store: a list of arrays, a reference being an index,
  and allocation appending a new array. The object holds a reference to its
  \<open>entries\<close> array; \<open>state_of\<close> reads the object's state through the store.
  \<open>[...this.entries]\<close> and \<open>this.entries.slice(i)\<close> both allocate; a call of
  \<open>getRecentEntries\<close> that throws allocates nothing.
\<close>

record TranscriptObject =
  entriesRef :: nat
  totalTokensField :: tally
  loadedField :: bool

definition state_of :: "json list list \<Rightarrow> TranscriptObject \<Rightarrow> Transcript" where
  "state_of store obj =
     \<lparr>entries = store ! entriesRef obj, totalTokens = totalTokensField obj, loaded = loadedField obj\<rparr>"

definition alloc :: "'a list list \<Rightarrow> 'a list \<Rightarrow> nat \<times> 'a list list" where
  "alloc store xs = (length store, store @ [xs])"

definition getEntries_ref :: "json list list \<Rightarrow> TranscriptObject \<Rightarrow> nat \<times> json list list" where
  "getEntries_ref store obj = alloc store (getEntries (state_of store obj))"

definition getRecentEntries_ref :: "json list list \<Rightarrow> TranscriptObject \<Rightarrow> error + nat \<times> json list list" where
  "getRecentEntries_ref store obj =
     (case getRecentEntries (state_of store obj) of
        Inl e \<Rightarrow> Inl e
      | Inr recent \<Rightarrow> Inr (alloc store recent))"

section \<open>The platform's JSON on one transcript line\<close>

text \<open>
  The transcript functions take \<open>JSON.parse\<close> and \<open>JSON.stringify\<close> as parameters. This
  section gives the instance used to run them on concrete files: \<open>JSON_stringify\<close> and
  \<open>JSON_parse\<close> on the values of \<open>json\<close>. \<open>JSON_parse\<close> is \<open>None\<close> where \<open>JSON.parse\<close>
  throws; a JSON text yields its value whatever that is (\<open>null\<close>, \<open>{}\<close>, \<open>[1]\<close>, \<open>5\<close>
  included), a repeated name keeping its first place and its last value. The value type
  sets two limits. Strings hold code units below 256, so a text with an escape
  \<open>\uXXXX\<close> above \<open>00ff\<close> denotes no value of this theory and gets \<open>None\<close>. A number is
  the exact value of its literal, where JavaScript rounds to a double; the two agree on
  the integers up to \<open>2^53\<close>, which include every token count that the class writes.
  The theorems below run \<open>JSON_parse\<close> on texts within both limits only.
\<close>

definition isJSONWhiteSpace :: "char \<Rightarrow> bool" where
  "isJSONWhiteSpace c = (c = CHR 0x09 \<or> c = CHR 0x0A \<or> c = CHR 0x0D \<or> c = CHR 0x20)"

definition hexDigit :: "nat \<Rightarrow> char" where
  "hexDigit n = (if n < 10 then char_of (48 + n) else char_of (87 + n))"

definition quoteChar :: "char \<Rightarrow> string" where
  "quoteChar c =
     (if c = CHR 0x22 then [CHR 0x5C, CHR 0x22]
      else if c = CHR 0x5C then [CHR 0x5C, CHR 0x5C]
      else if c = CHR 0x08 then [CHR 0x5C, CHR ''b'']
      else if c = CHR 0x0C then [CHR 0x5C, CHR ''f'']
      else if c = CHR 0x0A then [CHR 0x5C, CHR ''n'']
      else if c = CHR 0x0D then [CHR 0x5C, CHR ''r'']
      else if c = CHR 0x09 then [CHR 0x5C, CHR ''t'']
      else if (of_char c :: nat) < 32
        then [CHR 0x5C, CHR ''u'', CHR ''0'', CHR ''0'', hexDigit (of_char c div 16), hexDigit (of_char c mod 16)]
      else [c])"

definition quoteJSONString :: "string \<Rightarrow> string" where
  "quoteJSONString s = CHR 0x22 # concat (map quoteChar s) @ [CHR 0x22]"

fun stringifyValue :: "json \<Rightarrow> string" where
  "stringifyValue JNull = ''null''"
| "stringifyValue (JBool b) = (if b then ''true'' else ''false'')"
| "stringifyValue (JNumber n) = numberToString n"
| "stringifyValue (JString s) = quoteJSONString s"
| "stringifyValue (JArray vs) = CHR ''['' # commaJoin (map stringifyValue vs) @ '']''"
| "stringifyValue (JObject properties) =
     CHR ''{'' # commaJoin (map (\<lambda>(k, v). quoteJSONString k @ CHR '':'' # stringifyValue v) properties) @ ''}''"

definition JSON_stringify :: "json \<Rightarrow> string" where
  "JSON_stringify v = stringifyValue v"

definition hexVal :: "char \<Rightarrow> nat option" where
  "hexVal c =
     (let n = (of_char c :: nat) in
      if 48 \<le> n \<and> n \<le> 57 then Some (n - 48)
      else if 97 \<le> n \<and> n \<le> 102 then Some (n - 87)
      else if 65 \<le> n \<and> n \<le> 70 then Some (n - 55)
      else None)"

definition unescape :: "char \<Rightarrow> char option" where
  "unescape e =
     (if e = CHR 0x22 then Some (CHR 0x22)
      else if e = CHR 0x5C then Some (CHR 0x5C)
      else if e = CHR ''/'' then Some (CHR ''/'')
      else if e = CHR ''b'' then Some (CHR 0x08)
      else if e = CHR ''f'' then Some (CHR 0x0C)
      else if e = CHR ''n'' then Some (CHR 0x0A)
      else if e = CHR ''r'' then Some (CHR 0x0D)
      else if e = CHR ''t'' then Some (CHR 0x09)
      else None)"

definition consResult :: "'a \<Rightarrow> ('a list \<times> string) option \<Rightarrow> ('a list \<times> string) option" where
  "consResult x r = (case r of None \<Rightarrow> None | Some (xs, rest) \<Rightarrow> Some (x # xs, rest))"

fun parseStringBody :: "string \<Rightarrow> (string \<times> string) option" where
  "parseStringBody [] = None"
| "parseStringBody (c # cs) =
     (if c = CHR 0x22 then Some ([], cs)
      else if c = CHR 0x5C then
        (case cs of
           [] \<Rightarrow> None
         | e # cs1 \<Rightarrow>
             if e = CHR ''u'' then
               (case cs1 of
                  h1 # h2 # h3 # h4 # cs2 \<Rightarrow>
                    (case (hexVal h1, hexVal h2, hexVal h3, hexVal h4) of
                       (Some a, Some b, Some c, Some d) \<Rightarrow>
                         (let n = ((a * 16 + b) * 16 + c) * 16 + d
                          in if n < 256 then consResult (char_of n) (parseStringBody cs2) else None)
                     | _ \<Rightarrow> None)
                | _ \<Rightarrow> None)
             else
               (case unescape e of
                  None \<Rightarrow> None
                | Some ch \<Rightarrow> consResult ch (parseStringBody cs1)))
      else if (of_char c :: nat) < 32 then None
      else consResult c (parseStringBody cs))"

definition isDigit :: "char \<Rightarrow> bool" where
  "isDigit c = (48 \<le> (of_char c :: nat) \<and> (of_char c :: nat) \<le> 57)"

definition digitsValue :: "string \<Rightarrow> nat" where
  "digitsValue ds = foldl (\<lambda>n c. 10 * n + (of_char c - 48)) 0 ds"

text \<open>
  A number literal: an optional minus, the integer digits (no leading zero before
  another digit), an optional fraction and an optional exponent, each with at least
  one digit.
\<close>

definition parseNumber :: "string \<Rightarrow> (json \<times> string) option" where
  "parseNumber s =
     (let neg = (s \<noteq> [] \<and> hd s = CHR ''-'');
          r = (if neg then tl s else s);
          ds = takeWhile isDigit r;
          r1 = dropWhile isDigit r;
          hasFraction = (r1 \<noteq> [] \<and> hd r1 = CHR ''.'');
          fs = (if hasFraction then takeWhile isDigit (tl r1) else []);
          r2 = (if hasFraction then dropWhile isDigit (tl r1) else r1);
          hasExponent = (r2 \<noteq> [] \<and> (hd r2 = CHR ''e'' \<or> hd r2 = CHR ''E''));
          r3 = (if hasExponent then tl r2 else r2);
          expNeg = (hasExponent \<and> r3 \<noteq> [] \<and> hd r3 = CHR ''-'');
          r4 = (if hasExponent \<and> r3 \<noteq> [] \<and> (hd r3 = CHR ''-'' \<or> hd r3 = CHR ''+'') then tl r3 else r3);
          es = (if hasExponent then takeWhile isDigit r4 else []);
          rest = (if hasExponent then dropWhile isDigit r4 else r2);
          mantissa = (of_nat (digitsValue ds) + of_nat (digitsValue fs) / 10 ^ length fs :: rat);
          magnitude = (if expNeg then mantissa / 10 ^ digitsValue es else mantissa * 10 ^ digitsValue es)
      in if ds = [] then None
         else if 1 < length ds \<and> hd ds = CHR ''0'' then None
         else if hasFraction \<and> fs = [] then None
         else if hasExponent \<and> es = [] then None
         else Some (JNumber (if neg then - magnitude else magnitude), rest))"

definition skipWS :: "string \<Rightarrow> string" where
  "skipWS s = dropWhile isJSONWhiteSpace s"

definition literal :: "string \<Rightarrow> json \<Rightarrow> string \<Rightarrow> (json \<times> string) option" where
  "literal w v s = (if take (length w) s = w then Some (v, drop (length w) s) else None)"

text \<open>A property set on an object: a new name goes last, a known name keeps its place.\<close>

fun setProperty :: "(string \<times> json) list \<Rightarrow> string \<Rightarrow> json \<Rightarrow> (string \<times> json) list" where
  "setProperty [] k v = [(k, v)]"
| "setProperty ((k', v') # properties) k v =
     (if k' = k then (k, v) # properties else (k', v') # setProperty properties k v)"

text \<open>
  The parser of values, array elements and object members. The first argument is fuel,
  one unit per nested call; \<open>JSON_parse\<close> gives two units per character, more than a
  text can use. The members of an object are read onto the properties read before.
\<close>

fun parseValue :: "nat \<Rightarrow> string \<Rightarrow> (json \<times> string) option"
and parseElements :: "nat \<Rightarrow> string \<Rightarrow> (json list \<times> string) option"
and parseMembers :: "nat \<Rightarrow> (string \<times> json) list \<Rightarrow> string \<Rightarrow> ((string \<times> json) list \<times> string) option" where
  "parseValue 0 s = None"
| "parseValue (Suc n) s =
     (case skipWS s of
        [] \<Rightarrow> None
      | c # cs \<Rightarrow>
          if c = CHR 0x22 then
            (case parseStringBody cs of None \<Rightarrow> None | Some (x, r) \<Rightarrow> Some (JString x, r))
          else if c = CHR ''['' then
            (if skipWS cs \<noteq> [] \<and> hd (skipWS cs) = CHR '']'' then Some (JArray [], tl (skipWS cs))
             else (case parseElements n cs of None \<Rightarrow> None | Some (vs, r) \<Rightarrow> Some (JArray vs, r)))
          else if c = CHR ''{'' then
            (if skipWS cs \<noteq> [] \<and> hd (skipWS cs) = CHR ''}'' then Some (JObject [], tl (skipWS cs))
             else (case parseMembers n [] cs of None \<Rightarrow> None | Some (kvs, r) \<Rightarrow> Some (JObject kvs, r)))
          else if c = CHR ''t'' then literal ''true'' (JBool True) (c # cs)
          else if c = CHR ''f'' then literal ''false'' (JBool False) (c # cs)
          else if c = CHR ''n'' then literal ''null'' JNull (c # cs)
          else parseNumber (c # cs))"
| "parseElements 0 s = None"
| "parseElements (Suc n) s =
     (case parseValue n s of
        None \<Rightarrow> None
      | Some (v, r) \<Rightarrow>
          (case skipWS r of
             [] \<Rightarrow> None
           | c # r1 \<Rightarrow>
               if c = CHR '','' then consResult v (parseElements n r1)
               else if c = CHR '']'' then Some ([v], r1)
               else None))"
| "parseMembers 0 properties s = None"
| "parseMembers (Suc n) properties s =
     (case skipWS s of
        [] \<Rightarrow> None
      | q # s1 \<Rightarrow>
          if q \<noteq> CHR 0x22 then None
          else
            (case parseStringBody s1 of
               None \<Rightarrow> None
             | Some (k, s2) \<Rightarrow>
                 (case skipWS s2 of
                    [] \<Rightarrow> None
                  | colon # s3 \<Rightarrow>
                      if colon \<noteq> CHR '':'' then None
                      else
                        (case parseValue n s3 of
                           None \<Rightarrow> None
                         | Some (v, r) \<Rightarrow>
                             (case skipWS r of
                                [] \<Rightarrow> None
                              | c # r1 \<Rightarrow>
                                  if c = CHR '','' then parseMembers n (setProperty properties k v) r1
                                  else if c = CHR ''}'' then Some (setProperty properties k v, r1)
                                  else None)))))"

definition JSON_parse :: "string \<Rightarrow> json option" where
  "JSON_parse s =
     (case parseValue (2 * length s + 2) s of
        None \<Rightarrow> None
      | Some (v, r) \<Rightarrow> if skipWS r = [] then Some v else None)"

text \<open>
  A transcript file in which every line is terminated: absent, empty, or ending with a
  line feed. \<open>init\<close> creates such a file and \<open>append_entry\<close> keeps it so.
\<close>

definition lines_terminated :: "string option \<Rightarrow> bool" where
  "lines_terminated file = (case file of None \<Rightarrow> True | Some c \<Rightarrow> c = [] \<or> last c = CHR 0x0A)"

text \<open>Entries used to run the transcript functions.\<close>

definition entry_a :: TranscriptEntry where
  "entry_a = \<lparr>parentId = Some JNull, type = message, role = Some user, content = ''hi'',
     metadata = None, id' = ''a'', timestamp = ''t1'', tokenCount = 1\<rparr>"

definition entry_b :: TranscriptEntry where
  "entry_b = \<lparr>parentId = Some (JString ''a''), type = message, role = Some assistant,
     content = ''yo'', metadata = None, id' = ''b'', timestamp = ''t2'', tokenCount = 2\<rparr>"

definition input_c :: EntryInput where
  "input_c = \<lparr>parentId = Some (JString ''b''), type = message, role = Some user, content = ''ok'',
     metadata = None\<rparr>"

definition entry_c :: TranscriptEntry where
  "entry_c = \<lparr>parentId = Some (JString ''b''), type = message, role = Some user, content = ''ok'',
     metadata = None, id' = ''c'', timestamp = ''t3'', tokenCount = 2\<rparr>"

section \<open>Daily notes (class DailyNotes, src/src/memory/DailyNotes.ts)\<close>

text \<open>
  \<open>addEntry\<close> finds its section with the regular expression
  \<open>^##\s+escaped\s*$\<close> under flag \<open>m\<close>, where \<open>escaped\<close> is the section name with
  every metacharacter escaped, so the name is matched literally. The functions below
  are that regular expression: \<open>^\<close> and \<open>$\<close> with flag \<open>m\<close> hold at the ends of the
  input and next to a line terminator, and \<open>\s\<close> is \<open>isWhiteSpace\<close>.
\<close>

definition isLineTerminator :: "char \<Rightarrow> bool" where
  "isLineTerminator c = (c = CHR 0x0A \<or> c = CHR 0x0D)"

text \<open>\<open>\s*$\<close> at the start of \<open>r\<close>.\<close>

definition matchTail :: "string \<Rightarrow> bool" where
  "matchTail r =
     (dropWhile isWhiteSpace r = [] \<or> list_ex isLineTerminator (takeWhile isWhiteSpace r))"

text \<open>\<open>##\s+section\s*$\<close> at the start of \<open>r\<close>: some number \<open>k \<ge> 1\<close> of white space.\<close>

definition matchHere :: "string \<Rightarrow> string \<Rightarrow> bool" where
  "matchHere section r =
     (take 2 r = ''##'' \<and>
      list_ex (\<lambda>k. take (length section) (drop k (drop 2 r)) = section \<and>
                    matchTail (drop (k + length section) (drop 2 r)))
        [1..<Suc (length (takeWhile isWhiteSpace (drop 2 r)))])"

text \<open>The search for a position where \<open>^\<close> holds and the rest matches.\<close>

fun matchFrom :: "string \<Rightarrow> bool \<Rightarrow> string \<Rightarrow> bool" where
  "matchFrom section atLineStart [] = False"
| "matchFrom section atLineStart (c # cs) =
     ((atLineStart \<and> matchHere section (c # cs)) \<or> matchFrom section (isLineTerminator c) cs)"

definition sectionPattern_test :: "string \<Rightarrow> string \<Rightarrow> bool" where
  "sectionPattern_test section str = matchFrom section True str"

text \<open>\<open>lines[j].match(/^##\s+/)\<close>\<close>

definition isSectionHeading :: "string \<Rightarrow> bool" where
  "isSectionHeading line = (take 2 line = ''##'' \<and> 2 < length line \<and> isWhiteSpace (line ! 2))"

text \<open>
  \<open>createInitialContent\<close>; \<open>dateStr\<close> is what \<open>formatDate\<close> (utils/markdown, not among
  the sources) returns.
\<close>

definition createInitialContent :: "string \<Rightarrow> string" where
  "createInitialContent dateStr =
     ''# '' @ dateStr @
     ''\<newline>\<newline>## Session Notes\<newline>\<newline>## Decisions Made\<newline>\<newline>## Ideas\<newline>\<newline>## Tasks\<newline>\<newline>''"

text \<open>\<open>ensureToday\<close> returns the content and the file, created when absent.\<close>

definition ensureToday :: "string \<Rightarrow> string option \<Rightarrow> string \<times> string option" where
  "ensureToday dateStr file =
     (case file of
        None \<Rightarrow> (createInitialContent dateStr, Some (createInitialContent dateStr))
      | Some c \<Rightarrow> (c, Some c))"

text \<open>The index of the first element that satisfies \<open>P\<close>: a \<open>for\<close> loop left by \<open>break\<close>.\<close>

primrec first_index :: "('a \<Rightarrow> bool) \<Rightarrow> 'a list \<Rightarrow> nat option" where
  "first_index P [] = None"
| "first_index P (x # xs) =
     (if P x then Some 0 else (case first_index P xs of None \<Rightarrow> None | Some i \<Rightarrow> Some (Suc i)))"

text \<open>\<open>while (insertIndex > 0 && lines[insertIndex - 1].trim() === '') insertIndex--\<close>\<close>

fun skipBlankBack :: "string list \<Rightarrow> nat \<Rightarrow> nat" where
  "skipBlankBack lines 0 = 0"
| "skipBlankBack lines (Suc n) = (if trim (lines ! n) = [] then skipBlankBack lines n else Suc n)"

text \<open>
  \<open>addEntry\<close>: \<open>timeStr\<close> is what \<open>formatTime()\<close> returns, \<open>file\<close> is today's file. The
  result is the file written.
\<close>

definition addEntry :: "string \<Rightarrow> string \<Rightarrow> string \<Rightarrow> string \<Rightarrow> string option \<Rightarrow> string option" where
  "addEntry timeStr dateStr text section file =
     (let fileContent0 = fst (ensureToday dateStr file);
          entry = ''- ['' @ timeStr @ ''] '' @ text;
          fileContent =
            (if \<not> sectionPattern_test section fileContent0
             then trimEnd fileContent0 @ ''\<newline>\<newline>## '' @ section @ ''\<newline>''
             else fileContent0);
          lines = split_nl fileContent;
          insertIndex =
            (case first_index (sectionPattern_test section) lines of
               None \<Rightarrow> length lines
             | Some i \<Rightarrow>
                 (case first_index isSectionHeading (drop (Suc i) lines) of
                    None \<Rightarrow> length lines
                  | Some j \<Rightarrow> Suc i + j));
          insertIndex' = skipBlankBack lines insertIndex
      in Some (join_nl (take insertIndex' lines @ [entry] @ drop insertIndex' lines)))"

definition addDecision :: "string \<Rightarrow> string \<Rightarrow> string \<Rightarrow> string option \<Rightarrow> string option" where
  "addDecision timeStr dateStr decision file =
     addEntry timeStr dateStr decision ''Decisions Made'' file"

text \<open>
  What the claim about \<open>addEntry\<close> on a day without a file expects: the skeleton with
  the entry as the last line under the heading of the section, the heading added after
  the four default ones when the section is none of them.
\<close>

definition defaultSections :: "string list" where
  "defaultSections = [''Session Notes'', ''Decisions Made'', ''Ideas'', ''Tasks'']"

definition expectedToday :: "string \<Rightarrow> string \<Rightarrow> string \<Rightarrow> string" where
  "expectedToday dateStr entry section =
     join_nl
       ([''# '' @ dateStr, []]
        @ concat (map (\<lambda>title. if title = section then [''## '' @ title, entry, []]
                                 else [''## '' @ title, []]) defaultSections)
        @ (if section \<in> set defaultSections then [[]] else [''## '' @ section, entry, []]))"

section \<open>Search (LongTermMemory.search and DailyNotes.search)\<close>

text \<open>
  Both \<open>search\<close> functions build one \<open>new RegExp(pattern, 'gi')\<close> and call
  \<open>regex.test(line)\<close> on every line with it. With flag \<open>g\<close> the object keeps
  \<open>lastIndex\<close>: \<open>test\<close> starts at \<open>lastIndex\<close>, sets it to the end of the match it
  finds, and resets it to \<open>0\<close> when it finds none (RegExpBuiltinExec of ECMAScript). The
  pattern itself is a parameter, its matcher \<open>m\<close>: \<open>m s i = Some e\<close> when the pattern,
  ignoring case, matches \<open>s\<close> from index \<open>i\<close> up to index \<open>e\<close>.
\<close>

function regExpExec :: "(string \<Rightarrow> nat \<Rightarrow> nat option) \<Rightarrow> string \<Rightarrow> nat \<Rightarrow> nat option" where
  "regExpExec m s i =
     (if length s < i then None
      else (case m s i of Some e \<Rightarrow> Some e | None \<Rightarrow> regExpExec m s (Suc i)))"
  by pat_completeness auto
termination
  by (relation "measure (\<lambda>(m, s, i). Suc (length s) - i)") auto

text \<open>\<open>regex.test(s)\<close> with \<open>lastIndex\<close> before the call; the result and \<open>lastIndex\<close> after it.\<close>

definition regExp_test :: "(string \<Rightarrow> nat \<Rightarrow> nat option) \<Rightarrow> string \<Rightarrow> nat \<Rightarrow> bool \<times> nat" where
  "regExp_test m s lastIndex =
     (case regExpExec m s lastIndex of None \<Rightarrow> (False, 0) | Some e \<Rightarrow> (True, e))"

text \<open>\<open>lines.filter((line) => regex.test(line))\<close>, \<open>lastIndex\<close> carried from line to line.\<close>

fun filter_test :: "(string \<Rightarrow> nat \<Rightarrow> nat option) \<Rightarrow> string list \<Rightarrow> nat \<Rightarrow> string list \<times> nat" where
  "filter_test m [] lastIndex = ([], lastIndex)"
| "filter_test m (line # lines) lastIndex =
     (case regExp_test m line lastIndex of
        (found, lastIndex') \<Rightarrow>
          (case filter_test m lines lastIndex' of
             (rest, lastIndex'') \<Rightarrow> (if found then line # rest else rest, lastIndex'')))"

text \<open>\<open>LongTermMemory.search\<close> on the content that \<open>read()\<close> returns.\<close>

definition LongTermMemory_search :: "(string \<Rightarrow> nat \<Rightarrow> nat option) \<Rightarrow> string \<Rightarrow> string list" where
  "LongTermMemory_search m contents = fst (filter_test m (split_nl contents) 0)"

text \<open>\<open>listDates\<close>: the names matching \<open>/^\d{4}-\d{2}-\d{2}\.md$/\<close>, without the extension,
  sorted (the default order of \<open>sort()\<close>, by code units) and reversed.\<close>

definition isDateFileName :: "string \<Rightarrow> bool" where
  "isDateFileName f =
     (length f = 13 \<and> list_all (\<lambda>i. isDigit (f ! i)) [0, 1, 2, 3, 5, 6, 8, 9] \<and>
      f ! 4 = CHR ''-'' \<and> f ! 7 = CHR ''-'' \<and> drop 10 f = ''.md'')"

fun codeUnit_le :: "string \<Rightarrow> string \<Rightarrow> bool" where
  "codeUnit_le [] ys = True"
| "codeUnit_le (x # xs) [] = False"
| "codeUnit_le (x # xs) (y # ys) =
     ((of_char x :: nat) < of_char y \<or> (x = y \<and> codeUnit_le xs ys))"

fun insert_sorted :: "string \<Rightarrow> string list \<Rightarrow> string list" where
  "insert_sorted x [] = [x]"
| "insert_sorted x (y # ys) = (if codeUnit_le x y then x # y # ys else y # insert_sorted x ys)"

definition sort_strings :: "string list \<Rightarrow> string list" where
  "sort_strings xs = foldr insert_sorted xs []"

definition listDates :: "string list \<Rightarrow> string list" where
  "listDates files = rev (sort_strings (map (take 10) (filter isDateFileName files)))"

text \<open>
  \<open>DailyNotes.search\<close>: \<open>readDate dateStr\<close> is the content that
  \<open>readDate(new Date(dateStr))\<close> returns, empty for a missing file. The same regular
  expression object serves all files.
\<close>

fun search_dates ::
  "(string \<Rightarrow> nat \<Rightarrow> nat option) \<Rightarrow> (string \<Rightarrow> string) \<Rightarrow> string list \<Rightarrow> nat \<Rightarrow> (string \<times> string) list" where
  "search_dates m readDate [] lastIndex = []"
| "search_dates m readDate (dateStr # dates) lastIndex =
     (case filter_test m (split_nl (readDate dateStr)) lastIndex of
        (found, lastIndex') \<Rightarrow>
          map (\<lambda>line. (dateStr, line)) found @ search_dates m readDate dates lastIndex')"

definition DailyNotes_search ::
  "(string \<Rightarrow> nat \<Rightarrow> nat option) \<Rightarrow> (string \<Rightarrow> string) \<Rightarrow> string list \<Rightarrow> (string \<times> string) list" where
  "DailyNotes_search m readDate files = search_dates m readDate (listDates files) 0"

text \<open>\<open>String.prototype.toLowerCase\<close> on code units below 256.\<close>

definition toLowerChar :: "char \<Rightarrow> char" where
  "toLowerChar c =
     (let n = (of_char c :: nat) in
      if (65 \<le> n \<and> n \<le> 90) \<or> (192 \<le> n \<and> n \<le> 222 \<and> n \<noteq> 215) then char_of (n + 32) else c)"

definition toLowerCase :: "string \<Rightarrow> string" where
  "toLowerCase s = map toLowerChar s"

text \<open>
  The matcher of a pattern without metacharacters: the pattern itself, ignoring case.
\<close>

definition literalMatcher :: "string \<Rightarrow> string \<Rightarrow> nat \<Rightarrow> nat option" where
  "literalMatcher p s i =
     (if toLowerCase (take (length p) (drop i s)) = toLowerCase p then Some (i + length p) else None)"

section \<open>Section documents (utils/markdown) and long-term memory (src/src/memory/LongTermMemory.ts)\<close>

text \<open>
  Modelled from the spec: \<open>parseSections\<close> and \<open>appendToSection\<close> of utils/markdown, which
  \<open>LongTermMemory\<close> imports and which is not among the sources. The specification
  (SectionDocument) says: a heading is a line of one to three \<open>#\<close>, then white space, then
  the title text; the sections are the (title, body) pairs in document order, the lines
  below a heading and above the next one being its body, with an untitled leading
  section for the lines above the first heading; a body is trimmed of its leading and
  trailing blank lines; a lookup matches the trimmed title exactly and returns the first
  match. \<open>appendToSection\<close> (upsertInSection) appends the new line as the last line of
  the section's body, before the next heading or the end of the document, after
  removing the body's trailing blank lines, and leaves one blank line before the next
  heading; for a missing section and \<open>createIfMissing\<close> it appends a \<open>## title\<close> heading
  and the line at the end of the document, otherwise it returns the text unchanged.
  Where the specification is silent the model follows \<open>setSection\<close> of
  LongTermMemory.ts: the new heading goes after \<open>trimEnd\<close> of the text and a blank line,
  and the document ends with a line feed.
\<close>

text \<open>Modelled from the spec: the heading test of utils/markdown. The title of a heading line
  (one to three \<open>#\<close>, white space, title text), trimmed; \<open>None\<close> for any other line, so
  for \<open>#tag\<close> and for four or more \<open>#\<close>.\<close>

definition headingTitle :: "string \<Rightarrow> string option" where
  "headingTitle line =
     (let hashes = takeWhile (\<lambda>c. c = CHR ''#'') line;
          rest = dropWhile (\<lambda>c. c = CHR ''#'') line
      in if 1 \<le> length hashes \<and> length hashes \<le> 3 \<and> rest \<noteq> [] \<and> isWhiteSpace (hd rest)
            \<and> trim rest \<noteq> []
         then Some (trim rest) else None)"

text \<open>Modelled from the spec: a line that is no heading belongs to a body.\<close>

definition notHeading :: "string \<Rightarrow> bool" where
  "notHeading line = (headingTitle line = None)"

text \<open>Modelled from the spec: a blank line, as the trimming of a body understands it.\<close>

definition isBlank :: "string \<Rightarrow> bool" where
  "isBlank line = (trim line = [])"

text \<open>Modelled from the spec: the body without its trailing blank lines.\<close>

definition dropTrailingBlank :: "string list \<Rightarrow> string list" where
  "dropTrailingBlank ls = rev (dropWhile isBlank (rev ls))"

text \<open>Modelled from the spec: the body trimmed of leading and trailing blank lines.\<close>

definition trimBlankLines :: "string list \<Rightarrow> string list" where
  "trimBlankLines ls = dropWhile isBlank (dropTrailingBlank ls)"

text \<open>Modelled from the spec: the sections of utils/markdown's \<open>parseSections\<close> from the first
  heading on, each heading with the lines up to the next heading.\<close>

function sectionsOf :: "string list \<Rightarrow> (string \<times> string) list" where
  "sectionsOf [] = []"
| "sectionsOf (l # ls) =
     (case headingTitle l of
        Some title \<Rightarrow>
          (title, join_nl (trimBlankLines (takeWhile notHeading ls)))
            # sectionsOf (dropWhile notHeading ls)
      | None \<Rightarrow> sectionsOf ls)"
  by pat_completeness auto
termination
  by (relation "measure length") (auto simp: length_dropWhile_le less_Suc_eq_le)

text \<open>Modelled from the spec: \<open>parseSections\<close> of utils/markdown, the untitled leading section
  first.\<close>

definition parseSections :: "string \<Rightarrow> (string \<times> string) list" where
  "parseSections contents =
     (let lines = split_nl contents
      in ([], join_nl (trimBlankLines (takeWhile notHeading lines)))
           # sectionsOf (dropWhile notHeading lines))"

text \<open>Modelled from the spec: \<open>sections.get(title)\<close> on what \<open>parseSections\<close> returns, the
  first pair with that title.\<close>

definition sections_get :: "(string \<times> string) list \<Rightarrow> string \<Rightarrow> string option" where
  "sections_get sections title = map_of sections title"


text \<open>
  \<open>LongTermMemory\<close>: the file (\<open>None\<close> when it does not exist) and the cache. The
  fields are \<open>memoryFile\<close> and \<open>cache\<close>.
\<close>

record LongTermMemory =
  memoryFile :: "string option"
  cache :: "string option"

definition initialContent :: string where
  "initialContent =
     ''# Long-Term Memory\<newline>\<newline>## Preferences\<newline>\<newline>## People\<newline>\<newline>## Projects\<newline>\<newline>## Facts\<newline>\<newline>''"

definition LongTermMemory_init :: "LongTermMemory \<Rightarrow> LongTermMemory" where
  "LongTermMemory_init st =
     (case memoryFile st of
        None \<Rightarrow> st\<lparr>memoryFile := Some initialContent, cache := Some initialContent\<rparr>
      | Some c \<Rightarrow> st)"

text \<open>\<open>read\<close> returns the content and the state; a missing file is initialised.\<close>

definition read :: "LongTermMemory \<Rightarrow> string \<times> LongTermMemory" where
  "read st =
     (case cache st of
        Some c \<Rightarrow> (c, st)
      | None \<Rightarrow>
          (case memoryFile st of
             Some c \<Rightarrow> (c, st\<lparr>cache := Some c\<rparr>)
           | None \<Rightarrow> (initialContent, LongTermMemory_init st)))"

definition getSection :: "LongTermMemory \<Rightarrow> string \<Rightarrow> string option \<times> LongTermMemory" where
  "getSection st sectionTitle =
     (case read st of (contents, st') \<Rightarrow> (sections_get (parseSections contents) sectionTitle, st'))"







section \<open>Auxiliary definitions for the proofs\<close>

text \<open>
  The running sum that \<open>load\<close> keeps: \<open>acc + (e.tokenCount || 0)\<close> over the entries in
  order, an entry on which reading or adding throws leaving the sum as it was.
\<close>

fun tokens_sum :: "tally \<Rightarrow> json list \<Rightarrow> tally" where
  "tokens_sum acc [] = acc"
| "tokens_sum acc (e # es) =
     tokens_sum
       (case tokenCount_or_0 e of
          Inl err \<Rightarrow> acc
        | Inr x \<Rightarrow> (case js_add acc x of Inl err \<Rightarrow> acc | Inr acc' \<Rightarrow> acc')) es"

definition tokens_consistent :: "Transcript \<Rightarrow> bool" where
  "tokens_consistent t = (totalTokens t = tokens_sum (Number 0) (entries t))"

text \<open>The lines of the body of the first section titled \<open>S\<close>, as \<open>parseSections\<close> keeps them.\<close>

definition sectionLines :: "string \<Rightarrow> string \<Rightarrow> string list" where
  "sectionLines c S =
     (case dropWhile (\<lambda>l. headingTitle l \<noteq> Some S) (split_nl c) of
        [] \<Rightarrow> []
      | h # after \<Rightarrow> trimBlankLines (takeWhile notHeading after))"



section \<open>Properties of the string primitives\<close>

lemma split_nl_not_Nil: "split_nl s \<noteq> []"
  by (induction s) (auto split: list.splits)

lemma split_nl_no_nl: "CHR 0x0A \<notin> set s \<Longrightarrow> split_nl s = [s]"
  by (induction s) auto

lemma split_nl_append_nl: "split_nl (a @ CHR 0x0A # b) = split_nl a @ split_nl b"
  by (induction a) (auto split: list.splits simp: split_nl_not_Nil)

lemma trimEnd_snoc_nl: "trimEnd (s @ [CHR 0x0A]) = trimEnd s"
  by (simp add: trimEnd_def isWhiteSpace_def)

lemma trimEnd_append_nonws:
  "s \<noteq> [] \<Longrightarrow> \<not> isWhiteSpace (last s) \<Longrightarrow> trimEnd (c @ s) = c @ s"
  by (cases s rule: rev_cases) (auto simp: trimEnd_def)

lemma trim_unchanged:
  assumes "s \<noteq> []" "\<not> isWhiteSpace (hd s)" "\<not> isWhiteSpace (last s)"
  shows "trim s = s"
proof -
  have "trimEnd s = s" using trimEnd_append_nonws[of s "[]"] assms by simp
  moreover have "trimStart s = s" using assms by (cases s) (auto simp: trimStart_def)
  ultimately show ?thesis by (simp add: trim_def)
qed

section \<open>Properties of the transcript\<close>

lemma load_line_entries:
  "entries (fst (load_line parse l st)) =
     entries (fst st) @ (if trim l \<noteq> [] then (case parse l of None \<Rightarrow> [] | Some v \<Rightarrow> [v]) else [])"
  by (cases st) (simp add: load_line_def Let_def split: option.splits sum.splits)

lemma load_lines_entries:
  "entries (fst (load_lines parse ls st)) =
     entries (fst st) @ List.map_filter parse (filter (\<lambda>l. trim l \<noteq> []) ls)"
  by (induction ls arbitrary: st)
    (auto simp: load_line_entries List.map_filter_simps split: option.splits)

lemma load_line_loaded: "loaded (fst (load_line parse l st)) = loaded (fst st)"
  by (cases st) (simp add: load_line_def Let_def split: option.splits sum.splits)

lemma load_lines_loaded: "loaded (fst (load_lines parse ls st)) = loaded (fst st)"
  by (induction ls arbitrary: st) (auto simp: load_line_loaded)

lemma tokens_sum_append: "tokens_sum acc (xs @ ys) = tokens_sum (tokens_sum acc xs) ys"
  by (induction xs arbitrary: acc) auto

lemma load_line_total:
  "totalTokens (fst (load_line parse l st)) =
     tokens_sum (totalTokens (fst st))
       (if trim l \<noteq> [] then (case parse l of None \<Rightarrow> [] | Some v \<Rightarrow> [v]) else [])"
  by (cases st) (simp add: load_line_def Let_def split: option.splits sum.splits)

lemma load_lines_total:
  "totalTokens (fst (load_lines parse ls st)) =
     tokens_sum (totalTokens (fst st)) (List.map_filter parse (filter (\<lambda>l. trim l \<noteq> []) ls))"
  by (induction ls arbitrary: st)
    (auto simp: load_line_total List.map_filter_simps split: option.splits)

lemma load_loaded: "loaded (load parse fl t)"
  by (auto simp: load_def load_reporting_def Let_def load_lines_loaded split: option.splits)

lemma load_of_loaded: "loaded t \<Longrightarrow> load parse fl t = t"
  by (simp add: load_def load_reporting_def)

lemma load_consistent:
  "loaded t \<longrightarrow> tokens_consistent t \<Longrightarrow> tokens_consistent (load parse fl t)"
  by (auto simp: load_def load_reporting_def Let_def tokens_consistent_def load_lines_total
      load_lines_entries split: option.splits)

lemma tokenCount_or_0_toObject:
  "tokenCount_or_0 (toObject e) = Inr (JNumber (of_nat (tokenCount e)))"
  by (auto simp: tokenCount_or_0_def toObject_def getProperty_def truthy_def
      split: option.splits)

lemma js_add_number: "js_add acc (JNumber n) = Inr (addPrimitive acc (JNumber n))"
  by (simp add: js_add_def toPrimitive_def)

lemma type_toObject: "getProperty (toObject e) ''type'' = Inr (Some (JString (entryTypeName (type e))))"
  by (simp add: toObject_def getProperty_def)

lemma append_consistent:
  "loaded t \<longrightarrow> tokens_consistent t \<Longrightarrow>
   tokens_consistent (fst (snd (append_entry countTokens parse stringify uuid now entry fl t)))"
  using load_consistent[of t parse fl]
  by (simp add: append_entry_def Let_def tokens_consistent_def tokens_sum_append
      tokenCount_or_0_toObject js_add_number)

lemma append_loaded: "loaded (fst (snd (append_entry countTokens parse stringify uuid now entry fl t)))"
  by (simp add: append_entry_def Let_def load_loaded)

lemma append_total:
  "totalTokens (fst (snd (append_entry countTokens parse stringify uuid now entry fl t))) =
     addPrimitive (totalTokens (load parse fl t)) (JNumber (of_nat (countTokens (content entry))))"
  by (simp add: append_entry_def Let_def)

lemma append_seq_total:
  "loaded t \<Longrightarrow> totalTokens t = Number m \<Longrightarrow>
   totalTokens (fst (append_seq countTokens parse stringify es fl t)) =
     Number (m + of_nat (sum_list (map (\<lambda>(uuid, now, e). countTokens (content e)) es)))"
proof (induction es arbitrary: fl t m)
  case Nil
  then show ?case by simp
next
  case (Cons x es)
  obtain uuid now entry where x: "x = (uuid, now, entry)" by (cases x)
  obtain e t' fl' where a: "append_entry countTokens parse stringify uuid now entry fl t = (e, t', fl')"
    by (cases "append_entry countTokens parse stringify uuid now entry fl t")
  have l: "loaded t'"
    using append_loaded[of countTokens parse stringify uuid now entry fl t] a by simp
  have tt: "totalTokens t' = Number (m + of_nat (countTokens (content entry)))"
    using append_total[of countTokens parse stringify uuid now entry fl t] a Cons.prems
    by (simp add: load_of_loaded addPrimitive_def)
  show ?case using Cons.IH[OF l tt, of fl'] by (simp add: x a add.assoc)
qed

lemma append_seq_consistent:
  "loaded t \<longrightarrow> tokens_consistent t \<Longrightarrow>
   tokens_consistent (fst (append_seq countTokens parse stringify es fl t)) \<or>
   (es = [] \<and> \<not> loaded t)"
proof (induction es arbitrary: fl t)
  case Nil
  then show ?case by auto
next
  case (Cons x es)
  obtain uuid now entry where x: "x = (uuid, now, entry)" by (cases x)
  obtain e t' fl' where a: "append_entry countTokens parse stringify uuid now entry fl t = (e, t', fl')"
    by (cases "append_entry countTokens parse stringify uuid now entry fl t")
  have l: "loaded t'"
    using append_loaded[of countTokens parse stringify uuid now entry fl t] a by simp
  have c: "loaded t' \<longrightarrow> tokens_consistent t'"
    using append_consistent[OF Cons.prems, of countTokens parse stringify uuid now entry fl] a by simp
  show ?case using Cons.IH[OF c, of fl'] l by (simp add: x a)
qed

lemma append_seq_first_load:
  "es \<noteq> [] \<Longrightarrow>
   append_seq countTokens parse stringify es fl t =
     append_seq countTokens parse stringify es fl (load parse fl t)"
  by (cases es) (auto simp: append_entry_def Let_def load_of_loaded load_loaded)

lemma tokens_sum_toObject:
  "tokens_sum (Number m) (map toObject xs) = Number (m + of_nat (sum_list (map tokenCount xs)))"
  by (induction xs arbitrary: m)
    (auto simp: tokenCount_or_0_toObject js_add_number addPrimitive_def add.assoc)

lemma reduce_tokens_tokens_sum:
  "reduce_tokens acc es = Inr r \<Longrightarrow> tokens_sum acc es = r"
  by (induction es arbitrary: acc) (auto split: sum.splits)

lemma lastCompaction_snoc_compaction:
  "getProperty v ''type'' = Inr (Some (JString ''compaction'')) \<Longrightarrow>
   lastCompaction (es @ [v]) (Suc (length es)) = Inr (int (length es))"
  by simp






lemma lines_after_write:
  assumes c: "c = [] \<or> last c = CHR 0x0A"
    and s: "s \<noteq> []" "\<not> isWhiteSpace (hd s)" "\<not> isWhiteSpace (last s)" "CHR 0x0A \<notin> set s"
  shows "\<exists>pre. split_nl (trim (c @ s @ [CHR 0x0A])) = pre @ [s]"
proof -
  have "trimEnd (c @ s @ [CHR 0x0A]) = c @ s"
    using trimEnd_snoc_nl[of "c @ s"] trimEnd_append_nonws[of s c] s by simp
  then have t: "trim (c @ s @ [CHR 0x0A]) = dropWhile isWhiteSpace (c @ s)"
    by (simp add: trim_def trimStart_def)
  have ds: "dropWhile isWhiteSpace s = s" using s by (cases s) auto
  show ?thesis
  proof (cases "dropWhile isWhiteSpace c = []")
    case True
    then have "\<forall>x\<in>set c. isWhiteSpace x" by (simp add: dropWhile_eq_Nil_conv)
    then have "dropWhile isWhiteSpace (c @ s) = s" using ds by (simp add: dropWhile_append)
    then show ?thesis using t s split_nl_no_nl[of s] by auto
  next
    case False
    then have "\<exists>x\<in>set c. \<not> isWhiteSpace x" by (auto simp: dropWhile_eq_Nil_conv)
    then have d: "dropWhile isWhiteSpace (c @ s) = dropWhile isWhiteSpace c @ s"
      by (auto simp: dropWhile_append)
    have "c \<noteq> []" using False by auto
    then have lc: "last c = CHR 0x0A" using c by simp
    have "last (dropWhile isWhiteSpace c) = last c"
      using False by (metis last_appendR takeWhile_dropWhile_id)
    then obtain c' where c': "dropWhile isWhiteSpace c = c' @ [CHR 0x0A]"
      using False lc by (metis append_butlast_last_id)
    have "split_nl (c' @ CHR 0x0A # s) = split_nl c' @ [s]"
      using split_nl_append_nl[of c' s] split_nl_no_nl[of s] s by simp
    then show ?thesis using t d c' by auto
  qed
qed


section \<open>Claims about the transcript\<close>

text \<open>
  C1. Right after \<open>addCompaction\<close>, whatever the transcript and its file were, the entry
  sequence is the loaded one followed by the new compaction entry; \<open>getRecentEntries\<close>
  returns the suffix that starts at that entry, which is the entry alone, so nothing
  appended before it is returned; and \<open>getRecentTokens\<close> returns the sum of the token
  counts over that suffix only, the count of the summary.
\<close>

theorem addCompaction_recent_starts_at_new_entry:
  "(case addCompaction countTokens parse stringify uuid now summary removedEntryIds file t of
      (e, t', file') \<Rightarrow>
        getEntries t' = getEntries (load parse file t) @ [toObject e] \<and>
        type e = compaction \<and> content e = summary \<and> tokenCount e = countTokens summary \<and>
        getRecentEntries t' = Inr (drop (length (getEntries t') - 1) (getEntries t')) \<and>
        getRecentEntries t' = Inr [toObject e] \<and>
        getRecentTokens t' = reduce_tokens (Number 0) [toObject e] \<and>
        getRecentTokens t' = Inr (Number (of_nat (sum_list (map tokenCount [e])))) \<and>
        getRecentTokens t' = Inr (Number (of_nat (countTokens summary))))"
proof -
  define e where "e = \<lparr>parentId = Some JNull, type = compaction, role = None, content = summary,
     metadata = Some [(''removedEntryIds'', JArray (map JString removedEntryIds)),
                      (''removedCount'', JNumber (of_nat (length removedEntryIds)))],
     id' = uuid, timestamp = now, tokenCount = countTokens summary\<rparr>"
  define es where "es = entries (load parse file t)"
  define t' where "t' = (load parse file t)\<lparr>entries := es @ [toObject e],
        totalTokens := addPrimitive (totalTokens (load parse file t)) (JNumber (of_nat (countTokens summary)))\<rparr>"
  have a: "addCompaction countTokens parse stringify uuid now summary removedEntryIds file t =
     (e, t', Some ((case file of None \<Rightarrow> [] | Some c \<Rightarrow> c) @ stringify (toObject e) @ [CHR 0x0A]))"
    by (simp add: addCompaction_def append_entry_def Let_def e_def es_def t'_def)
  have en: "entries t' = es @ [toObject e]" by (simp add: t'_def)
  have ty: "getProperty (toObject e) ''type'' = Inr (Some (JString ''compaction''))"
    by (simp add: type_toObject e_def entryTypeName_def)
  have r: "lastCompaction (es @ [toObject e]) (length (es @ [toObject e])) = Inr (int (length es))"
    using lastCompaction_snoc_compaction[OF ty] by simp
  have g: "getRecentEntries t' = Inr [toObject e]"
    unfolding getRecentEntries_def en r by simp
  have tk: "tokenCount e = countTokens summary" by (simp add: e_def)
  have red: "reduce_tokens (Number 0) [toObject e] = Inr (Number (of_nat (countTokens summary)))"
    by (simp add: tokenCount_or_0_toObject js_add_number addPrimitive_def tk)
  have rt: "getRecentTokens t' = Inr (Number (of_nat (countTokens summary)))"
    unfolding getRecentTokens_def g using red by simp
  have f: "type e = compaction \<and> content e = summary" by (simp add: e_def)
  show ?thesis
    unfolding a using g rt red tk f by (simp add: getEntries_def en es_def)
qed

text \<open>
  C3. After any run of appends to a new transcript whose file is absent or empty,
  \<open>getTotalTokens\<close> is the sum of \<open>countTokens\<close> over the contents appended. Whatever
  the file held and whatever the kinds of the entries appended (compaction entries
  included), \<open>getTotalTokens\<close> is the running sum \<open>tokens_sum\<close> over all entries, those
  before a compaction entry too; over entries that the class itself built, this sum is
  the sum of their token counts.
\<close>

theorem getTotalTokens_sums_all_appended:
  "getTotalTokens (fst (append_seq countTokens parse stringify es None new_Transcript)) =
     Number (of_nat (sum_list (map (\<lambda>(uuid, now, e). countTokens (content e)) es)))
   \<and> getTotalTokens (fst (append_seq countTokens parse stringify es (Some []) new_Transcript)) =
     Number (of_nat (sum_list (map (\<lambda>(uuid, now, e). countTokens (content e)) es)))
   \<and> getTotalTokens (fst (append_seq countTokens parse stringify es file new_Transcript)) =
     tokens_sum (Number 0)
       (getEntries (fst (append_seq countTokens parse stringify es file new_Transcript)))
   \<and> tokens_sum (Number 0) (map toObject xs) = Number (of_nat (sum_list (map tokenCount xs)))"
proof -
  let ?sum = "sum_list (map (\<lambda>(uuid, now, e). countTokens (content e)) es)"
  have fresh: "totalTokens (fst (append_seq countTokens parse stringify es fl new_Transcript)) =
      Number (of_nat ?sum)"
    if "fl = None \<or> fl = Some []" for fl
  proof (cases "es = []")
    case True
    then show ?thesis by (simp add: new_Transcript_def)
  next
    case False
    have l: "load parse fl new_Transcript = \<lparr>entries = [], totalTokens = Number 0, loaded = True\<rparr>"
      using that
      by (auto simp: load_def load_reporting_def new_Transcript_def trim_def trimStart_def trimEnd_def)
    show ?thesis
      using append_seq_first_load[OF False, of countTokens parse stringify fl new_Transcript]
        append_seq_total[of "\<lparr>entries = [], totalTokens = Number 0, loaded = True\<rparr>" 0
          countTokens parse stringify es fl]
      by (simp add: l)
  qed
  have "tokens_consistent new_Transcript" by (simp add: tokens_consistent_def new_Transcript_def)
  then have "tokens_consistent (fst (append_seq countTokens parse stringify es file new_Transcript))"
    using append_seq_consistent[of new_Transcript countTokens parse stringify es "file"] by auto
  then show ?thesis using fresh[of None] fresh[of "Some []"] tokens_sum_toObject[of 0 xs]
    by (simp add: getTotalTokens_def getEntries_def tokens_consistent_def)
qed




text \<open>
  C4, amended. If the file before the call is absent, empty or ends with a line feed,
  then after \<open>append_entry\<close> and \<open>reload\<close> the last entry read back is the entry that
  \<open>append_entry\<close> returned, with the same id, time stamp, kind, role, content and token count;
  and the file again ends with a line feed. The hypotheses on \<open>stringify\<close> and \<open>parse\<close>
  are what \<open>JSON.stringify\<close> and \<open>JSON.parse\<close> provide for the entry: one line, starting
  and ending with a brace, that parses back to the entry.
\<close>

theorem reload_reads_back_appended_entry:
  assumes f: "lines_terminated file"
    and a: "append_entry countTokens parse stringify uuid now entry file t = (e, t', file')"
    and s: "stringify (toObject e) \<noteq> []" "\<not> isWhiteSpace (hd (stringify (toObject e)))"
      "\<not> isWhiteSpace (last (stringify (toObject e)))" "CHR 0x0A \<notin> set (stringify (toObject e))"
    and p: "parse (stringify (toObject e)) = Some (toObject e)"
  shows "getEntries (reload parse file' t') \<noteq> [] \<and>
         last (getEntries (reload parse file' t')) = toObject e \<and>
         last (getEntries (reload parse file' t')) = last (getEntries t') \<and>
         id' e = uuid \<and> timestamp e = now \<and> type e = type entry \<and> role e = role entry \<and>
         content e = content entry \<and> tokenCount e = countTokens (content entry) \<and>
         getProperty (last (getEntries (reload parse file' t'))) ''id'' = Inr (Some (JString uuid)) \<and>
         getProperty (last (getEntries (reload parse file' t'))) ''timestamp'' = Inr (Some (JString now)) \<and>
         getProperty (last (getEntries (reload parse file' t'))) ''type'' =
           Inr (Some (JString (entryTypeName (type entry)))) \<and>
         getProperty (last (getEntries (reload parse file' t'))) ''role'' =
           Inr (map_option (\<lambda>r. JString (roleName r)) (role entry)) \<and>
         getProperty (last (getEntries (reload parse file' t'))) ''content'' =
           Inr (Some (JString (content entry))) \<and>
         getProperty (last (getEntries (reload parse file' t'))) ''tokenCount'' =
           Inr (Some (JNumber (of_nat (countTokens (content entry))))) \<and>
         lines_terminated file'"
proof -
  define c where "c = (case file of None \<Rightarrow> [] | Some x \<Rightarrow> x)"
  define line where "line = stringify (toObject e)"
  have c: "c = [] \<or> last c = CHR 0x0A"
    using f by (auto simp: c_def lines_terminated_def split: option.splits)
  have e: "e = \<lparr>parentId = parentId entry, type = type entry, role = role entry,
                content = content entry, metadata = metadata entry,
                id' = uuid, timestamp = now, tokenCount = countTokens (content entry)\<rparr>"
    using a by (auto simp: append_entry_def Let_def)
  have fl: "file' = Some (c @ line @ [CHR 0x0A])"
    using a by (auto simp: append_entry_def Let_def c_def line_def)
  have lt: "last (entries t') = toObject e"
    using a by (auto simp: append_entry_def Let_def)
  have s': "line \<noteq> []" "\<not> isWhiteSpace (hd line)" "\<not> isWhiteSpace (last line)" "CHR 0x0A \<notin> set line"
    using s by (simp_all add: line_def)
  have p': "parse line = Some (toObject e)" using p by (simp add: line_def)
  obtain pre where pre: "split_nl (trim (c @ line @ [CHR 0x0A])) = pre @ [line]"
    using lines_after_write[OF c s'] by blast
  have ne: "trim (c @ line @ [CHR 0x0A]) \<noteq> []"
  proof
    assume "trim (c @ line @ [CHR 0x0A]) = []"
    then have "[[]] = pre @ [line]" using pre by simp
    then show False using s'(1) by simp
  qed
  have ts: "trim line \<noteq> []" using trim_unchanged[OF s'(1,2,3)] s'(1) by simp
  have "entries (reload parse file' t') =
          List.map_filter parse (filter (\<lambda>l. trim l \<noteq> []) pre) @ [toObject e]"
    using ne
    by (simp add: reload_def load_def load_reporting_def fl Let_def load_lines_entries pre ts p'
        List.map_filter_def)
  then have r: "getEntries (reload parse file' t') \<noteq> [] \<and>
      last (getEntries (reload parse file' t')) = toObject e"
    by (simp add: getEntries_def)
  have flds: "id' e = uuid \<and> timestamp e = now \<and> type e = type entry \<and> role e = role entry \<and>
         content e = content entry \<and> tokenCount e = countTokens (content entry)"
    by (simp add: e)
  have g1: "getProperty (toObject e) ''id'' = Inr (Some (JString uuid))"
    by (simp add: e toObject_def getProperty_def split: option.splits)
  have g2: "getProperty (toObject e) ''timestamp'' = Inr (Some (JString now))"
    by (simp add: e toObject_def getProperty_def split: option.splits)
  have g3: "getProperty (toObject e) ''type'' = Inr (Some (JString (entryTypeName (type entry))))"
    by (simp add: e toObject_def getProperty_def split: option.splits)
  have g4: "getProperty (toObject e) ''role'' = Inr (map_option (\<lambda>r. JString (roleName r)) (role entry))"
    by (simp add: e toObject_def getProperty_def split: option.splits)
  have g5: "getProperty (toObject e) ''content'' = Inr (Some (JString (content entry)))"
    by (simp add: e toObject_def getProperty_def split: option.splits)
  have g6: "getProperty (toObject e) ''tokenCount'' = Inr (Some (JNumber (of_nat (countTokens (content entry)))))"
    by (simp add: e toObject_def getProperty_def split: option.splits)
  have lt': "lines_terminated file'" by (simp add: fl lines_terminated_def)
  show ?thesis
    using r flds g1 g2 g3 g4 g5 g6 lt' lt by (simp add: getEntries_def)
qed

text \<open>A file holding one terminated record, with the JSON of this theory.\<close>

theorem reload_reads_back_appended_entry_witness:
  "lines_terminated (Some (JSON_stringify (toObject entry_a) @ ''\<newline>'')) \<and>
   append_entry length JSON_parse JSON_stringify ''c'' ''t3'' input_c
      (Some (JSON_stringify (toObject entry_a) @ ''\<newline>'')) new_Transcript =
     (entry_c, \<lparr>entries = [toObject entry_a, toObject entry_c], totalTokens = Number 3, loaded = True\<rparr>,
      Some (JSON_stringify (toObject entry_a) @ ''\<newline>'' @ JSON_stringify (toObject entry_c) @ ''\<newline>'')) \<and>
   JSON_parse (JSON_stringify (toObject entry_c)) = Some (toObject entry_c) \<and>
   last (getEntries (reload JSON_parse
      (Some (JSON_stringify (toObject entry_a) @ ''\<newline>'' @ JSON_stringify (toObject entry_c) @ ''\<newline>''))
      \<lparr>entries = [toObject entry_a, toObject entry_c], totalTokens = Number 3, loaded = True\<rparr>)) =
     toObject entry_c"
proof -
  have f: "lines_terminated (Some (JSON_stringify (toObject entry_a) @ ''\<newline>''))"
    by (simp add: lines_terminated_def)
  have a: "append_entry length JSON_parse JSON_stringify ''c'' ''t3'' input_c
      (Some (JSON_stringify (toObject entry_a) @ ''\<newline>'')) new_Transcript =
     (entry_c, \<lparr>entries = [toObject entry_a, toObject entry_c], totalTokens = Number 3, loaded = True\<rparr>,
      Some (JSON_stringify (toObject entry_a) @ ''\<newline>'' @ JSON_stringify (toObject entry_c) @ ''\<newline>''))"
    by code_simp
  have s1: "JSON_stringify (toObject entry_c) \<noteq> []" by code_simp
  have s2: "\<not> isWhiteSpace (hd (JSON_stringify (toObject entry_c)))" by code_simp
  have s3: "\<not> isWhiteSpace (last (JSON_stringify (toObject entry_c)))" by code_simp
  have s4: "CHR 0x0A \<notin> set (JSON_stringify (toObject entry_c))" by code_simp
  have p: "JSON_parse (JSON_stringify (toObject entry_c)) = Some (toObject entry_c)" by code_simp
  show ?thesis
    using reload_reads_back_appended_entry[OF f a s1 s2 s3 s4 p] f a p by simp
qed

text \<open>
  C4 as stated fails when the last line of the file is not terminated: \<open>append_entry\<close> writes
  its record on the same line, the line no longer parses, and \<open>reload\<close> reads back
  neither the new entry nor the old one.
\<close>

theorem reload_loses_entry_after_unterminated_line:
  "(case append_entry length JSON_parse JSON_stringify ''c'' ''t3'' input_c
           (Some (JSON_stringify (toObject entry_a))) new_Transcript of
      (e, t', file') \<Rightarrow>
        e = entry_c \<and> getEntries t' = [toObject entry_a, toObject entry_c] \<and>
        file' = Some (JSON_stringify (toObject entry_a) @ JSON_stringify (toObject entry_c) @ ''\<newline>'') \<and>
        getEntries (reload JSON_parse file' t') = [])"
  by code_simp

text \<open>
  C10. \<open>getEntries\<close> and \<open>getRecentEntries\<close> return a newly allocated array holding the
  entries. Replacing the content of the returned array by any \<open>xs\<close> (a push, a pop and a
  reordering are such replacements) leaves the object's entry sequence, entry count and
  token totals as they were, and the next call returns the same entries. A call of
  \<open>getRecentEntries\<close> that throws returns no array and leaves the store as it was.
\<close>

theorem returned_arrays_are_fresh:
  assumes "entriesRef obj < length store"
  shows "(case getEntries_ref store obj of
            (r, store') \<Rightarrow>
              store' ! r = getEntries (state_of store obj) \<and>
              state_of (store'[r := xs]) obj = state_of store obj \<and>
              getEntryCount (state_of (store'[r := xs]) obj) = getEntryCount (state_of store obj) \<and>
              getTotalTokens (state_of (store'[r := xs]) obj) = getTotalTokens (state_of store obj) \<and>
              getRecentTokens (state_of (store'[r := xs]) obj) = getRecentTokens (state_of store obj) \<and>
              (case getEntries_ref (store'[r := xs]) obj of
                 (r2, store2) \<Rightarrow> store2 ! r2 = getEntries (state_of store obj)))
       \<and> (case getRecentEntries_ref store obj of
            Inl err \<Rightarrow> getRecentEntries (state_of store obj) = Inl err
          | Inr (r, store') \<Rightarrow>
              getRecentEntries (state_of store obj) = Inr (store' ! r) \<and>
              state_of (store'[r := xs]) obj = state_of store obj \<and>
              getEntryCount (state_of (store'[r := xs]) obj) = getEntryCount (state_of store obj) \<and>
              getTotalTokens (state_of (store'[r := xs]) obj) = getTotalTokens (state_of store obj) \<and>
              getRecentTokens (state_of (store'[r := xs]) obj) = getRecentTokens (state_of store obj) \<and>
              (case getRecentEntries_ref (store'[r := xs]) obj of
                 Inl err \<Rightarrow> False
               | Inr (r2, store2) \<Rightarrow> getRecentEntries (state_of store obj) = Inr (store2 ! r2)))"
proof -
  have st: "state_of (store @ [ys]) obj = state_of store obj" for ys
    using assms by (simp add: state_of_def nth_append)
  show ?thesis
    by (auto simp: getEntries_ref_def getRecentEntries_ref_def alloc_def st nth_append
        split: sum.splits)
qed

text \<open>A store holding the object's array of two entries; the returned copy loses one.\<close>

theorem returned_arrays_are_fresh_witness:
  "entriesRef \<lparr>entriesRef = 0, totalTokensField = Number 3, loadedField = True\<rparr>
     < length [[toObject entry_a, toObject entry_b]] \<and>
   (case getEntries_ref [[toObject entry_a, toObject entry_b]]
           \<lparr>entriesRef = 0, totalTokensField = Number 3, loadedField = True\<rparr> of
      (r, store') \<Rightarrow>
        r = 1 \<and> store' ! r = [toObject entry_a, toObject entry_b] \<and>
        getEntries (state_of (store'[r := [toObject entry_b]])
           \<lparr>entriesRef = 0, totalTokensField = Number 3, loadedField = True\<rparr>) =
          [toObject entry_a, toObject entry_b]) \<and>
   (case getRecentEntries_ref [[toObject entry_a, toObject entry_b]]
           \<lparr>entriesRef = 0, totalTokensField = Number 3, loadedField = True\<rparr> of
      Inl err \<Rightarrow> False
    | Inr (r, store') \<Rightarrow>
        r = 1 \<and> store' ! r = [toObject entry_a, toObject entry_b] \<and>
        getRecentEntries (state_of (store'[r := [toObject entry_b]])
           \<lparr>entriesRef = 0, totalTokensField = Number 3, loadedField = True\<rparr>) =
          Inr [toObject entry_a, toObject entry_b])"
proof -
  have h: "entriesRef \<lparr>entriesRef = 0, totalTokensField = Number 3, loadedField = True\<rparr>
      < length [[toObject entry_a, toObject entry_b]]"
    by simp
  have g: "getRecentEntries_ref [[toObject entry_a, toObject entry_b]]
           \<lparr>entriesRef = 0, totalTokensField = Number 3, loadedField = True\<rparr> =
         Inr (1, [[toObject entry_a, toObject entry_b], [toObject entry_a, toObject entry_b]])"
    by code_simp
  have r: "getRecentEntries (state_of [[toObject entry_a, toObject entry_b]]
           \<lparr>entriesRef = 0, totalTokensField = Number 3, loadedField = True\<rparr>) =
         Inr [toObject entry_a, toObject entry_b]"
    by code_simp
  note th = returned_arrays_are_fresh[OF h, of "[toObject entry_b]"]
  show ?thesis
    using th[THEN conjunct1] th[THEN conjunct2] r unfolding g
    by (simp add: getEntries_ref_def alloc_def state_of_def getEntries_def)
qed

section \<open>Properties of the section pattern\<close>

lemma matchFrom_no_terminator:
  "\<not> list_ex isLineTerminator l \<Longrightarrow> matchFrom S False l = False"
  by (induction l) auto

lemma matchFrom_skip_line:
  "\<not> list_ex isLineTerminator l \<Longrightarrow>
   matchFrom S False (l @ CHR 0x0A # rest) = matchFrom S True rest"
proof (induction l)
  case Nil
  show ?case by (simp add: matchHere_def isLineTerminator_def)
next
  case (Cons c l)
  then show ?case by simp
qed

lemma matchFrom_line:
  assumes "\<not> list_ex isLineTerminator l"
  shows "matchFrom S True (l @ CHR 0x0A # rest) =
           (matchHere S (l @ CHR 0x0A # rest) \<or> matchFrom S True rest)"
proof (cases l)
  case Nil
  then show ?thesis by (simp add: isLineTerminator_def)
next
  case (Cons c l')
  then show ?thesis using assms matchFrom_skip_line[of l' S rest] by simp
qed

lemma line_test:
  "\<not> list_ex isLineTerminator l \<Longrightarrow> sectionPattern_test S l = matchHere S l"
  by (cases l) (auto simp: sectionPattern_test_def matchFrom_no_terminator matchHere_def)

lemma matchTail_after_title:
  assumes "rest = [] \<or> hd rest = CHR 0x0A"
  shows "matchTail rest"
  using assms by (cases rest) (auto simp: matchTail_def isWhiteSpace_def isLineTerminator_def)

lemma matchTail_inside_title:
  assumes "X \<noteq> []" "\<not> isWhiteSpace (last X)" "\<not> list_ex isLineTerminator X"
  shows "\<not> matchTail (X @ rest)"
proof -
  have ex: "\<exists>x\<in>set X. \<not> isWhiteSpace x" using assms(1,2) last_in_set by blast
  then have tw: "takeWhile isWhiteSpace (X @ rest) = takeWhile isWhiteSpace X"
    by (auto simp: takeWhile_append)
  have "dropWhile isWhiteSpace (X @ rest) \<noteq> []"
    using ex by (auto simp: dropWhile_eq_Nil_conv)
  moreover have "\<not> list_ex isLineTerminator (takeWhile isWhiteSpace X)"
    using assms(3) by (auto simp: list_ex_iff dest: set_takeWhileD)
  ultimately show ?thesis by (simp add: matchTail_def tw)
qed

lemma matchHere_heading:
  assumes T: "T \<noteq> []" "\<not> isWhiteSpace (hd T)" "\<not> isWhiteSpace (last T)"
      "\<not> list_ex isLineTerminator T"
    and rest: "rest = [] \<or> hd rest = CHR 0x0A"
    and S: "CHR 0x0A \<notin> set S"
  shows "matchHere S (''## '' @ T @ rest) = (S = T)"
proof -
  have tw: "takeWhile isWhiteSpace (CHR '' '' # T @ rest) = '' ''"
    using T(1,2) by (cases T) (auto simp: isWhiteSpace_def)
  have d2: "drop 2 (''## '' @ T @ rest) = CHR '' '' # T @ rest" by simp
  have t2: "take 2 (''## '' @ T @ rest) = ''##''" by simp
  have m: "matchHere S (''## '' @ T @ rest) =
            (take (length S) (T @ rest) = S \<and> matchTail (drop (length S) (T @ rest)))"
    unfolding matchHere_def d2 t2 tw by simp
  show ?thesis
  proof
    assume "S = T"
    then show "matchHere S (''## '' @ T @ rest)"
      using m matchTail_after_title[OF rest] by simp
  next
    assume mh: "matchHere S (''## '' @ T @ rest)"
    then have tk: "take (length S) (T @ rest) = S"
      and mt: "matchTail (drop (length S) (T @ rest))" using m by auto
    consider "length S < length T" | "length S = length T" | "length T < length S" by linarith
    then show "S = T"
    proof cases
      case 1
      have d: "drop (length S) (T @ rest) = drop (length S) T @ rest" using 1 by simp
      have ne: "drop (length S) T \<noteq> []" using 1 by simp
      have l: "last (drop (length S) T) = last T" using 1 by simp
      have nt: "\<not> list_ex isLineTerminator (drop (length S) T)"
        using T(4) by (auto simp: list_ex_iff dest: in_set_dropD)
      show ?thesis using matchTail_inside_title[OF ne _ nt, of rest] l T(3) mt d by simp
    next
      case 2
      then show ?thesis using tk by simp
    next
      case 3
      have "length (take (length S) (T @ rest)) = length S" using tk by simp
      then have "rest \<noteq> []" using 3 by auto
      then have h: "hd rest = CHR 0x0A" using rest by simp
      have "S ! length T = (T @ rest) ! length T" using tk 3 by (metis nth_take)
      also have "\<dots> = hd rest" using \<open>rest \<noteq> []\<close> by (simp add: nth_append hd_conv_nth)
      finally have "S ! length T = CHR 0x0A" using h by simp
      then show ?thesis using S 3 by (metis nth_mem)
    qed
  qed
qed

lemma heading_line_test:
  assumes "T \<noteq> []" "\<not> isWhiteSpace (hd T)" "\<not> isWhiteSpace (last T)"
      "\<not> list_ex isLineTerminator T" "CHR 0x0A \<notin> set S"
  shows "sectionPattern_test S (''## '' @ T) = (S = T)"
proof -
  have "\<not> list_ex isLineTerminator (''## '' @ T)"
    using assms(4) by (simp add: isLineTerminator_def)
  then show ?thesis
    using line_test[of "''## '' @ T" S] matchHere_heading[OF assms(1-4) _ assms(5), of "[]"] by simp
qed

lemma own_heading_test: "sectionPattern_test S (''## '' @ S)"
proof -
  have d2: "drop 2 (''## '' @ S) = CHR '' '' # S" by simp
  have t2: "take 2 (''## '' @ S) = ''##''" by simp
  define n where "n = length (takeWhile isWhiteSpace (CHR '' '' # S))"
  have "1 \<le> n" by (simp add: n_def isWhiteSpace_def)
  then have "1 \<in> set [1..<Suc n]" unfolding set_upt by auto
  then have i: "1 \<in> set [1..<Suc (length (takeWhile isWhiteSpace (CHR '' '' # S)))]"
    unfolding n_def .
  have "take (length S) (drop 1 (CHR '' '' # S)) = S \<and>
        matchTail (drop (1 + length S) (CHR '' '' # S))"
    by (simp add: matchTail_def)
  then have "matchHere S (''## '' @ S)"
    unfolding matchHere_def d2 t2 list_ex_iff using i by blast
  then show ?thesis by (simp add: sectionPattern_test_def)
qed

lemma title_line_test:
  "\<not> list_ex isLineTerminator d \<Longrightarrow> sectionPattern_test S (''# '' @ d) = False"
  using line_test[of "''# '' @ d" S] by (simp add: isLineTerminator_def matchHere_def)

lemma empty_line_test: "sectionPattern_test S [] = False"
  by (simp add: sectionPattern_test_def)

lemma skeleton_test:
  assumes "CHR 0x0A \<notin> set S" "\<not> list_ex isLineTerminator d"
  shows "sectionPattern_test S (createInitialContent d) = (S \<in> set defaultSections)"
proof -
  have nl: "matchHere S (CHR 0x0A # r) = False" for r by (simp add: matchHere_def)
  have t: "matchHere S (''# '' @ r) = False" for r by (simp add: matchHere_def)
  have h: "matchHere S (''## '' @ T @ CHR 0x0A # r) = (S = T)"
    if "T \<noteq> []" "\<not> isWhiteSpace (hd T)" "\<not> isWhiteSpace (last T)" "\<not> list_ex isLineTerminator T"
    for T r
    using matchHere_heading[OF that _ assms(1), of "CHR 0x0A # r"] by simp
  have l1: "\<not> list_ex isLineTerminator (''# '' @ d)" using assms(2) by (simp add: isLineTerminator_def)
  have c: "createInitialContent d =
      (''# '' @ d) @ CHR 0x0A # [] @ CHR 0x0A # ''## Session Notes'' @ CHR 0x0A # [] @ CHR 0x0A #
      ''## Decisions Made'' @ CHR 0x0A # [] @ CHR 0x0A # ''## Ideas'' @ CHR 0x0A # [] @ CHR 0x0A #
      ''## Tasks'' @ CHR 0x0A # [] @ CHR 0x0A # []"
    by (simp add: createInitialContent_def)
  have l2: "\<not> list_ex isLineTerminator ''## Session Notes''" "\<not> list_ex isLineTerminator ''## Decisions Made''"
    "\<not> list_ex isLineTerminator ''## Ideas''" "\<not> list_ex isLineTerminator ''## Tasks''"
    "\<not> list_ex isLineTerminator []"
    by (simp_all add: isLineTerminator_def)
  have "sectionPattern_test S (createInitialContent d) =
       (S = ''Session Notes'' \<or> S = ''Decisions Made'' \<or> S = ''Ideas'' \<or> S = ''Tasks'')"
    unfolding sectionPattern_test_def c
    apply (subst matchFrom_line[OF l1])
    apply (subst matchFrom_line[OF l2(5)])
    apply (subst matchFrom_line[OF l2(1)])
    apply (subst matchFrom_line[OF l2(5)])
    apply (subst matchFrom_line[OF l2(2)])
    apply (subst matchFrom_line[OF l2(5)])
    apply (subst matchFrom_line[OF l2(3)])
    apply (subst matchFrom_line[OF l2(5)])
    apply (subst matchFrom_line[OF l2(4)])
    apply (subst matchFrom_line[OF l2(5)])
    using h[of "''Session Notes''"] h[of "''Decisions Made''"] h[of "''Ideas''"] h[of "''Tasks''"]
      t[of "d @ _"] nl
    apply (simp add: isWhiteSpace_def isLineTerminator_def)
    done
  then show ?thesis by (auto simp: defaultSections_def)
qed


lemma split_nl_line: "CHR 0x0A \<notin> set l \<Longrightarrow> split_nl (l @ CHR 0x0A # rest) = l # split_nl rest"
  using split_nl_append_nl[of l rest] split_nl_no_nl[of l] by simp

lemma trim_Nil: "trim [] = []"
  by (simp add: trim_def trimStart_def trimEnd_def)

lemma trim_nonempty: "\<not> isWhiteSpace c \<Longrightarrow> trim (c # s) \<noteq> []"
proof -
  assume c: "\<not> isWhiteSpace c"
  have "\<exists>s'. trimEnd (c # s) = c # s'"
  proof (cases "\<forall>x\<in>set (rev s). isWhiteSpace x")
    case True
    then have "dropWhile isWhiteSpace (rev s @ [c]) = [c]"
      using c by (simp add: dropWhile_append)
    then show ?thesis by (simp add: trimEnd_def)
  next
    case False
    then have "dropWhile isWhiteSpace (rev s @ [c]) = dropWhile isWhiteSpace (rev s) @ [c]"
      by (auto simp: dropWhile_append)
    then show ?thesis by (simp add: trimEnd_def)
  qed
  then obtain s' where "trimEnd (c # s) = c # s'" by blast
  then show ?thesis using c by (simp add: trim_def trimStart_def)
qed

lemma lines_of_skeleton:
  assumes "\<not> list_ex isLineTerminator d"
  shows "split_nl (createInitialContent d) =
     [''# '' @ d, [], ''## Session Notes'', [], ''## Decisions Made'', [], ''## Ideas'', [],
      ''## Tasks'', [], []]"
proof -
  have d: "CHR 0x0A \<notin> set (''# '' @ d)"
    using assms by (auto simp: list_ex_iff isLineTerminator_def)
  have "createInitialContent d =
      (''# '' @ d) @ CHR 0x0A # ''\<newline>## Session Notes\<newline>\<newline>## Decisions Made\<newline>\<newline>## Ideas\<newline>\<newline>## Tasks\<newline>\<newline>''"
    by (simp add: createInitialContent_def)
  then show ?thesis using split_nl_line[OF d] by simp
qed

lemma trimEnd_of_skeleton:
  "trimEnd (createInitialContent d) =
     ''# '' @ d @ ''\<newline>\<newline>## Session Notes\<newline>\<newline>## Decisions Made\<newline>\<newline>## Ideas\<newline>\<newline>## Tasks''"
proof -
  have "createInitialContent d =
     ((''# '' @ d @ ''\<newline>\<newline>## Session Notes\<newline>\<newline>## Decisions Made\<newline>\<newline>## Ideas\<newline>\<newline>'') @ ''## Tasks'')
       @ [CHR 0x0A] @ [CHR 0x0A]"
    by (simp add: createInitialContent_def)
  then have "trimEnd (createInitialContent d) =
     trimEnd ((''# '' @ d @ ''\<newline>\<newline>## Session Notes\<newline>\<newline>## Decisions Made\<newline>\<newline>## Ideas\<newline>\<newline>'') @ ''## Tasks'')"
    using trimEnd_snoc_nl by (metis append_assoc)
  also have "\<dots> = (''# '' @ d @ ''\<newline>\<newline>## Session Notes\<newline>\<newline>## Decisions Made\<newline>\<newline>## Ideas\<newline>\<newline>'') @ ''## Tasks''"
    by (rule trimEnd_append_nonws) (simp_all add: isWhiteSpace_def)
  finally show ?thesis by simp
qed

lemma lines_of_extended_skeleton:
  assumes "\<not> list_ex isLineTerminator d" "CHR 0x0A \<notin> set S"
  shows "split_nl (trimEnd (createInitialContent d) @ ''\<newline>\<newline>## '' @ S @ ''\<newline>'') =
     [''# '' @ d, [], ''## Session Notes'', [], ''## Decisions Made'', [], ''## Ideas'', [],
      ''## Tasks'', [], ''## '' @ S, []]"
proof -
  have d: "CHR 0x0A \<notin> set (''# '' @ d)"
    using assms by (auto simp: list_ex_iff isLineTerminator_def)
  have s: "CHR 0x0A \<notin> set (''## '' @ S)" using assms(2) by simp
  have "trimEnd (createInitialContent d) @ ''\<newline>\<newline>## '' @ S @ ''\<newline>'' =
      (''# '' @ d) @ CHR 0x0A # ''\<newline>## Session Notes\<newline>\<newline>## Decisions Made\<newline>\<newline>## Ideas\<newline>\<newline>## Tasks\<newline>\<newline>'' @ (''## '' @ S) @ CHR 0x0A # []"
    by (simp add: trimEnd_of_skeleton)
  then show ?thesis using split_nl_line[OF d] split_nl_line[OF s, of "[]"] by simp
qed

text \<open>
  C9, amended. When today's file does not exist and the section name contains no line
  feed, \<open>addEntry\<close> writes the four-section skeleton with the line
  \<open>- [HH:MM] text\<close> as the last line under the heading of the section; when the
  section is none of the four, its heading \<open>## section\<close> is first added at the end of
  the document. The date string is \<open>formatDate\<close>'s result and has no line terminator.
\<close>

theorem addEntry_creates_skeleton_and_inserts:
  assumes S: "CHR 0x0A \<notin> set section" and d: "\<not> list_ex isLineTerminator dateStr"
  shows "addEntry timeStr dateStr text section None =
           Some (expectedToday dateStr (''- ['' @ timeStr @ ''] '' @ text) section)"
proof -
  have t1: "sectionPattern_test section (''# '' @ dateStr) = False"
    using title_line_test[OF d] by simp
  have t1': "sectionPattern_test section (CHR ''#'' # CHR '' '' # dateStr) = False"
    using t1 by simp
  have t2: "sectionPattern_test section [] = False" by (rule empty_line_test)
  have t3: "sectionPattern_test section ''## Session Notes'' = (section = ''Session Notes'')"
    using heading_line_test[of "''Session Notes''" "section"] S by (simp add: isWhiteSpace_def isLineTerminator_def)
  have t4: "sectionPattern_test section ''## Decisions Made'' = (section = ''Decisions Made'')"
    using heading_line_test[of "''Decisions Made''" "section"] S by (simp add: isWhiteSpace_def isLineTerminator_def)
  have t5: "sectionPattern_test section ''## Ideas'' = (section = ''Ideas'')"
    using heading_line_test[of "''Ideas''" "section"] S by (simp add: isWhiteSpace_def isLineTerminator_def)
  have t6: "sectionPattern_test section ''## Tasks'' = (section = ''Tasks'')"
    using heading_line_test[of "''Tasks''" "section"] S by (simp add: isWhiteSpace_def isLineTerminator_def)
  have t7: "sectionPattern_test section (CHR ''#'' # CHR ''#'' # CHR '' '' # section)"
    using own_heading_test[of "section"] by simp
  have tr: "trim (CHR ''#'' # x) \<noteq> []" for x
    by (rule trim_nonempty) (simp add: isWhiteSpace_def)
  have hd: "isSectionHeading (CHR ''#'' # CHR '' '' # dateStr) = False" "isSectionHeading [] = False"
    "isSectionHeading ''## Session Notes''" "isSectionHeading ''## Decisions Made''"
    "isSectionHeading ''## Ideas''" "isSectionHeading ''## Tasks''"
    by (simp_all add: isSectionHeading_def isWhiteSpace_def)
  show ?thesis
  proof (cases "section \<in> set defaultSections")
    case True
    then have p: "sectionPattern_test section (createInitialContent dateStr)"
      using skeleton_test[OF S d] by simp
    from True consider "section = ''Session Notes''" | "section = ''Decisions Made''"
      | "section = ''Ideas''" | "section = ''Tasks''"
      by (auto simp: defaultSections_def)
    then show ?thesis
    proof cases
      case 1
      then show ?thesis
        using p t1' t2 t3 t4 t5 t6 hd
        by (simp add: addEntry_def ensureToday_def Let_def lines_of_skeleton[OF d] expectedToday_def
            defaultSections_def trim_Nil tr eval_nat_numeral)
    next
      case 2
      then show ?thesis
        using p t1' t2 t3 t4 t5 t6 hd
        by (simp add: addEntry_def ensureToday_def Let_def lines_of_skeleton[OF d] expectedToday_def
            defaultSections_def trim_Nil tr eval_nat_numeral)
    next
      case 3
      then show ?thesis
        using p t1' t2 t3 t4 t5 t6 hd
        by (simp add: addEntry_def ensureToday_def Let_def lines_of_skeleton[OF d] expectedToday_def
            defaultSections_def trim_Nil tr eval_nat_numeral)
    next
      case 4
      then show ?thesis
        using p t1' t2 t3 t4 t5 t6 hd
        by (simp add: addEntry_def ensureToday_def Let_def lines_of_skeleton[OF d] expectedToday_def
            defaultSections_def trim_Nil tr eval_nat_numeral)
    qed
  next
    case False
    then have p: "\<not> sectionPattern_test section (createInitialContent dateStr)"
      using skeleton_test[OF S d] by simp
    have ne: "section \<noteq> ''Session Notes''" "section \<noteq> ''Decisions Made''"
      "section \<noteq> ''Ideas''" "section \<noteq> ''Tasks''"
      using False by (auto simp: defaultSections_def)
    show ?thesis
      unfolding addEntry_def Let_def ensureToday_def option.case fst_conv
      apply (simp only: p not_False_eq_True if_True lines_of_extended_skeleton[OF d S])
      using t1' t2 t3 t4 t5 t6 t7 hd ne False
      apply (simp add: expectedToday_def defaultSections_def trim_Nil tr eval_nat_numeral)
      done
  qed
qed

text \<open>The scenario of the specification: a decision on a day without a file.\<close>

theorem addEntry_creates_skeleton_and_inserts_witness:
  "CHR 0x0A \<notin> set ''Decisions Made'' \<and> \<not> list_ex isLineTerminator ''2026-01-30'' \<and>
   addEntry ''10:30'' ''2026-01-30'' ''Shipped v1'' ''Decisions Made'' None =
     Some ''# 2026-01-30\<newline>\<newline>## Session Notes\<newline>\<newline>## Decisions Made\<newline>- [10:30] Shipped v1\<newline>\<newline>## Ideas\<newline>\<newline>## Tasks\<newline>\<newline>''"
proof -
  have h1: "CHR 0x0A \<notin> set ''Decisions Made''" by simp
  have h2: "\<not> list_ex isLineTerminator ''2026-01-30''" by (simp add: isLineTerminator_def)
  have v: "expectedToday ''2026-01-30'' (''- ['' @ ''10:30'' @ ''] '' @ ''Shipped v1'') ''Decisions Made'' =
     ''# 2026-01-30\<newline>\<newline>## Session Notes\<newline>\<newline>## Decisions Made\<newline>- [10:30] Shipped v1\<newline>\<newline>## Ideas\<newline>\<newline>## Tasks\<newline>\<newline>''"
    by (simp add: expectedToday_def defaultSections_def)
  show ?thesis
    using addEntry_creates_skeleton_and_inserts[OF h1 h2, of "''10:30''" "''Shipped v1''"] h1 h2 v
    by simp
qed

text \<open>
  C9 as stated fails for a section name that ends with a line feed: the pattern finds
  \<open>Session Notes\<close> followed by the line feed in the skeleton, so no heading is added; no
  single line matches, so the entry is inserted at the end of the document, under
  \<open>Tasks\<close>.
\<close>

theorem addEntry_section_name_with_line_feed:
  "addEntry ''10:30'' ''2026-01-30'' ''Shipped v1'' ''Session Notes\<newline>'' None =
     Some ''# 2026-01-30\<newline>\<newline>## Session Notes\<newline>\<newline>## Decisions Made\<newline>\<newline>## Ideas\<newline>\<newline>## Tasks\<newline>- [10:30] Shipped v1\<newline>\<newline>'' \<and>
   addEntry ''10:30'' ''2026-01-30'' ''Shipped v1'' ''Session Notes\<newline>'' None \<noteq>
     Some (expectedToday ''2026-01-30'' ''- [10:30] Shipped v1'' ''Session Notes\<newline>'')"
  by code_simp

section \<open>Properties of section documents\<close>





lemma dropWhile_dropWhile_weaker:
  "(\<And>x. P x \<Longrightarrow> Q x) \<Longrightarrow> dropWhile Q (dropWhile P xs) = dropWhile Q xs"
  by (induction xs) auto













lemma map_of_sectionsOf:
  "map_of (sectionsOf ls) S =
     (case dropWhile (\<lambda>l. headingTitle l \<noteq> Some S) ls of
        [] \<Rightarrow> None
      | h # after \<Rightarrow> Some (join_nl (trimBlankLines (takeWhile notHeading after))))"
proof (induction ls rule: sectionsOf.induct)
  case 1
  then show ?case by simp
next
  case (2 l ls)
  show ?case
  proof (cases "headingTitle l")
    case None
    then show ?thesis using 2 by simp
  next
    case (Some t)
    have dd: "dropWhile (\<lambda>l. headingTitle l \<noteq> Some S) (dropWhile notHeading ls) =
              dropWhile (\<lambda>l. headingTitle l \<noteq> Some S) ls"
      by (rule dropWhile_dropWhile_weaker) (simp add: notHeading_def)
    show ?thesis using 2(2)[OF Some] Some by (simp add: dd)
  qed
qed

lemma sections_get_parseSections:
  assumes "S \<noteq> []"
  shows "sections_get (parseSections c) S =
     (case dropWhile (\<lambda>l. headingTitle l \<noteq> Some S) (split_nl c) of
        [] \<Rightarrow> None
      | h # after \<Rightarrow> Some (join_nl (trimBlankLines (takeWhile notHeading after))))"
proof -
  have dd: "dropWhile (\<lambda>l. headingTitle l \<noteq> Some S) (dropWhile notHeading (split_nl c)) =
            dropWhile (\<lambda>l. headingTitle l \<noteq> Some S) (split_nl c)"
    by (rule dropWhile_dropWhile_weaker) (simp add: notHeading_def)
  show ?thesis
    using assms by (simp add: sections_get_def parseSections_def Let_def map_of_sectionsOf dd)
qed








lemma getSection_sectionLines:
  assumes "S \<noteq> []"
  shows "sections_get (parseSections c) S =
     (if dropWhile (\<lambda>l. headingTitle l \<noteq> Some S) (split_nl c) = [] then None
      else Some (join_nl (sectionLines c S)))"
proof (cases "dropWhile (\<lambda>l. headingTitle l \<noteq> Some S) (split_nl c)")
  case Nil
  show ?thesis unfolding sections_get_parseSections[OF assms, of c] sectionLines_def Nil by simp
next
  case (Cons h after)
  show ?thesis unfolding sections_get_parseSections[OF assms, of c] sectionLines_def Cons by simp
qed


section \<open>Claims about long-term memory and search\<close>




lemma getSection_eq:
  "getSection st S = (sections_get (parseSections (fst (read st))) S, snd (read st))"
  by (simp add: getSection_def split: prod.splits)






text \<open>
  C6. When the sections parsed from the document are \<open>pre\<close>, then a section with the
  title, then \<open>post\<close>, and no section of \<open>pre\<close> has the title, \<open>getSection\<close> returns the
  body of that section, whatever sections with the same title \<open>post\<close> holds: the first
  match in document order, by exact comparison with the trimmed title. For a title that
  is not empty this body is made of the lines between the first heading line with that
  title and the next heading, without leading and trailing blank lines.
\<close>

theorem getSection_returns_first_match:
  assumes "parseSections (fst (read st)) = pre @ (title, body) # post"
    and "title \<notin> fst ` set pre"
  shows "fst (getSection st title) = Some body \<and>
         (title \<noteq> [] \<longrightarrow> body = join_nl (sectionLines (fst (read st)) title))"
proof -
  have "map_of pre title = None" using assms(2) by (simp add: map_of_eq_None_iff)
  then have "map_of (pre @ (title, body) # post) title = Some body"
    by (simp add: map_add_def)
  then have g: "sections_get (parseSections (fst (read st))) title = Some body"
    by (simp add: sections_get_def assms(1))
  have "body = join_nl (sectionLines (fst (read st)) title)" if "title \<noteq> []"
    using getSection_sectionLines[OF that, of "fst (read st)"] g by (simp split: if_splits)
  then show ?thesis using g by (simp add: getSection_eq)
qed

text \<open>A document with two sections titled \<open>A\<close>.\<close>

theorem getSection_returns_first_match_witness:
  "parseSections (fst (read \<lparr>memoryFile = Some ''## A\<newline>- one\<newline>## A\<newline>- two'', cache = None\<rparr>)) =
     [([], [])] @ (''A'', ''- one'') # [(''A'', ''- two'')] \<and>
   ''A'' \<notin> fst ` set [([], [])] \<and> ''A'' \<noteq> [] \<and>
   fst (getSection \<lparr>memoryFile = Some ''## A\<newline>- one\<newline>## A\<newline>- two'', cache = None\<rparr> ''A'') =
     Some ''- one''"
proof -
  have h1: "parseSections (fst (read \<lparr>memoryFile = Some ''## A\<newline>- one\<newline>## A\<newline>- two'', cache = None\<rparr>)) =
     [([], [])] @ (''A'', ''- one'') # [(''A'', ''- two'')]"
    by code_simp
  have h2: "''A'' \<notin> fst ` set [([], [])]" by simp
  have h3: "''A'' \<noteq> []" by simp
  show ?thesis
    using getSection_returns_first_match[OF h1 h2] h1 h2 h3 by blast
qed

text \<open>
  C5. The code at a file whose second and third lines both contain \<open>foo\<close>: the search
  returns the second line only. After the match in the second line \<open>lastIndex\<close> is 11,
  beyond the end of the third line, so \<open>test\<close> fails there, although the same line
  matches when tested from \<open>lastIndex\<close> 0. \<open>DailyNotes.search\<close> loses the line of the
  older file in the same way.
\<close>

theorem search_omits_line_after_match:
  "LongTermMemory_search (literalMatcher ''foo'') ''## Facts\<newline>- likes foo\<newline>- Foo bar'' =
     [''- likes foo''] \<and>
   regExp_test (literalMatcher ''foo'') ''- Foo bar'' 0 = (True, 5) \<and>
   listDates [''2026-01-30.md'', ''2026-02-01.md''] = [''2026-02-01'', ''2026-01-30''] \<and>
   DailyNotes_search (literalMatcher ''foo'')
     (\<lambda>d. if d = ''2026-02-01'' then ''- [10:00] likes foo''
          else if d = ''2026-01-30'' then ''- foo'' else [])
     [''2026-01-30.md'', ''2026-02-01.md''] = [(''2026-02-01'', ''- [10:00] likes foo'')]"
  by code_simp

end
